theory Spec2Isabelle
  imports Main
begin

section \<open>Values, errors and the outside world\<close>

text \<open>
  The orchestrator and its agents are Python code that passes dictionaries and strings
  around, calls LLM adapters over the network and mutates the \<open>llm\<close> attribute of shared
  agent objects. The embedding keeps the control flow of the source and makes explicit
  what the source leaves to the runtime: exceptions are the left summand of a result,
  attribute mutation is state passing on a record, and every call that leaves the process
  (an adapter, the clock, the GitHub client) reads its outcome from an environment and is
  written to a trace of events.
\<close>

datatype pyval =
    PNone
  | PBool bool
  | PInt int
  | PDec int nat
  | PStr string
  | PList "pyval list"
  | PDict "(string \<times> pyval) list"

text \<open>\<open>PDec m e\<close> is the decimal literal \<open>m / 10 ^ e\<close>, as in \<open>temperature = 0.4\<close>.\<close>

type_synonym kwargs = "(string \<times> pyval) list"

text \<open>Python's truth value of an object, as tested by \<open>if x\<close> and \<open>x or y\<close>.\<close>

fun truthy :: "pyval \<Rightarrow> bool" where
  "truthy PNone = False"
| "truthy (PBool b) = b"
| "truthy (PInt i) = (i \<noteq> 0)"
| "truthy (PDec m e) = (m \<noteq> 0)"
| "truthy (PStr s) = (s \<noteq> [])"
| "truthy (PList xs) = (xs \<noteq> [])"
| "truthy (PDict d) = (d \<noteq> [])"

text \<open>
  The exceptions the modelled code can raise. The string is the part of the message that
  identifies the fault (a key, an argument name, the provider's text).
\<close>

datatype error =
    ValueError string
  | TypeError string
  | KeyError string
  | AttributeError string
  | RuntimeError string
  | ProviderError string
  | GithubException string

text \<open>The adapter classes the orchestrator can construct, one object of each at most.\<close>

datatype llm = ClaudeSonnetClient | OpenAIClient | GeminiClient

text \<open>
  A prompt is the template or f-string it was built from together with the values
  interpolated into it, in the order of their occurrence; the fixed text is not modelled.
\<close>

datatype prompt = Prompt string "pyval list"

record request =
  req_system :: prompt
  req_user :: prompt
  req_temperature :: pyval
  req_max_tokens :: pyval

text \<open>The dictionary every adapter's \<open>generate\<close> returns.\<close>

record response =
  resp_content :: string
  resp_model :: string
  resp_tokens_used :: int
  resp_input_tokens :: int
  resp_output_tokens :: int

text \<open>
  The outside world. Every outcome may depend on the position in the trace (the number of
  events so far), so that the same adapter can fail at one call and answer at the next.
  A stream is the finite list of chunks the adapter yields, followed by the fault that
  ends it, if any.
\<close>

record environment =
  construct :: "llm \<Rightarrow> string option"
  llm_generate :: "llm \<Rightarrow> nat \<Rightarrow> request \<Rightarrow> error + response"
  llm_stream_generate :: "llm \<Rightarrow> nat \<Rightarrow> request \<Rightarrow> string list \<times> error option"
  now_isoformat :: "nat \<Rightarrow> string"
  github_get_repository_info :: "nat \<Rightarrow> pyval \<Rightarrow> error + kwargs"
  github_get_languages :: "nat \<Rightarrow> pyval \<Rightarrow> error + kwargs"
  github_search_code :: "nat \<Rightarrow> pyval \<Rightarrow> pyval \<Rightarrow> error + pyval list"

text \<open>
  The placeholders of the templates of \<open>app/utils/prompt_templates.py\<close>, in the order
  in which \<open>str.format\<close> meets them. The agents are modelled for any templates;
  \<open>prompt_templates\<close> below are the ones of the repository.
\<close>

record templates =
  CODE_GENERATION_TEMPLATE :: "string list"
  CODE_REVIEW_TEMPLATE :: "string list"
  SYSTEM_ARCHITECT_TEMPLATE :: "string list"
  GITHUB_MCP_TEMPLATE :: "string list"
  SELF_EVOLVING_TEMPLATE :: "string list"

definition prompt_templates :: templates where
  "prompt_templates =
     \<lparr> CODE_GENERATION_TEMPLATE = [''language'', ''language'', ''context'', ''language''],
       CODE_REVIEW_TEMPLATE = [''language'', ''file_path''],
       SYSTEM_ARCHITECT_TEMPLATE = [''code'', ''goals'', ''language''],
       GITHUB_MCP_TEMPLATE = [''repo_url'', ''analysis_type''],
       SELF_EVOLVING_TEMPLATE = [''feedback'', ''context''] \<rparr>"

text \<open>
  \<open>template.format(**args)\<close>: each placeholder is looked up among the keyword arguments,
  the first one that is missing raises \<open>KeyError\<close>; arguments no placeholder names are
  ignored.
\<close>

fun format_fields :: "string list \<Rightarrow> kwargs \<Rightarrow> error + pyval list" where
  "format_fields [] args = Inr []"
| "format_fields (f # fs) args =
     (case map_of args f of
        None \<Rightarrow> Inl (KeyError f)
      | Some v \<Rightarrow> (case format_fields fs args of
                    Inl e \<Rightarrow> Inl e
                  | Inr vs \<Rightarrow> Inr (v # vs)))"

definition format_template :: "string \<Rightarrow> string list \<Rightarrow> kwargs \<Rightarrow> error + prompt" where
  "format_template name placeholders args =
     (case format_fields placeholders args of
        Inl e \<Rightarrow> Inl e
      | Inr vs \<Rightarrow> Inr (Prompt name vs))"

text \<open>
  Calling a method with \<open>**kwargs\<close>: a keyword the signature does not have raises
  \<open>TypeError\<close>, so does a required parameter that is not given; otherwise every
  parameter has the given value or its default.
\<close>

definition bind_kwargs ::
  "string list \<Rightarrow> kwargs \<Rightarrow> kwargs \<Rightarrow> error + (string \<Rightarrow> pyval)" where
  "bind_kwargs required defaults kw =
     (case filter (\<lambda>k. k \<notin> set (required @ map fst defaults)) (map fst kw) of
        k # _ \<Rightarrow> Inl (TypeError (''unexpected keyword argument '' @ k))
      | [] \<Rightarrow>
          (case filter (\<lambda>k. k \<notin> set (map fst kw)) required of
             k # _ \<Rightarrow> Inl (TypeError (''missing required argument '' @ k))
           | [] \<Rightarrow>
               Inr (\<lambda>k. case map_of kw k of
                          Some v \<Rightarrow> v
                        | None \<Rightarrow> (case map_of defaults k of Some d \<Rightarrow> d | None \<Rightarrow> PNone))))"

section \<open>The state: orchestrator, agents, trace\<close>

text \<open>One entry of \<open>SelfEvolvingAgent.interaction_history\<close>.\<close>

record learning =
  timestamp :: string
  analysis :: string
  previous_interaction :: pyval
  feedback :: pyval
  outcome :: pyval
  model_used :: string

text \<open>
  What the orchestrator logs and which adapter calls it causes, in order. The log lines of
  \<open>route_request\<close> and \<open>stream_generate\<close> are kept; those of the agents are not.
\<close>

datatype event =
    LogRouting string "string option"
  | LogErrorRouting string error
  | LogFallback
  | LogStreaming "string option"
  | LogErrorStream error
  | LogFallbackStream
  | LogFallbackFailed error
  | CallGenerate llm request
  | CallStream llm request
  | CallGithub string
  | CallNow

text \<open>
  The orchestrator object with the agents it owns. An agent's \<open>llm\<close> attribute holds an
  adapter or, after \<open>stream_generate\<close> looked up a name the registry does not have,
  Python's \<open>None\<close>. The registry is a dictionary in insertion order.
\<close>

record orchestrator =
  llms :: "(string \<times> llm) list"
  primary_llm :: llm
  code_generator_llm :: "llm option"
  code_reviewer_llm :: "llm option"
  system_architect_llm :: "llm option"
  github_mcp_llm :: "llm option"
  github_authenticated :: bool
  self_evolving_llm :: "llm option"
  interaction_history :: "learning list"
  events :: "event list"

definition emit :: "event \<Rightarrow> orchestrator \<Rightarrow> orchestrator" where
  "emit e s = s\<lparr>events := events s @ [e]\<rparr>"

text \<open>
  \<open>await self.llm.generate(...)\<close> on an agent whose attribute is \<open>l\<close>: on \<open>None\<close> the
  attribute access raises, otherwise the call is recorded and the environment answers.
\<close>

definition agent_generate ::
  "environment \<Rightarrow> orchestrator \<Rightarrow> llm option \<Rightarrow> request \<Rightarrow> orchestrator \<times> (error + response)" where
  "agent_generate env s l req =
     (case l of
        None \<Rightarrow> (s, Inl (AttributeError ''generate''))
      | Some a \<Rightarrow> (emit (CallGenerate a req) s, llm_generate env a (length (events s)) req))"

section \<open>The self-evolving agent\<close>

text \<open>
  \<open>SelfEvolvingAgent.learn_from_feedback\<close>. The system prompt is formatted before the
  \<open>try\<close>; the record is built and appended only after the adapter has answered.
\<close>

definition learn_from_feedback ::
  "templates \<Rightarrow> environment \<Rightarrow> orchestrator \<Rightarrow> pyval \<Rightarrow> pyval \<Rightarrow> pyval \<Rightarrow> pyval
     \<Rightarrow> orchestrator \<times> (error + learning)" where
  "learn_from_feedback T env s v_previous_interaction v_feedback v_outcome v_temperature =
     (case format_template ''SELF_EVOLVING_TEMPLATE'' (SELF_EVOLVING_TEMPLATE T)
             [(''previous_interaction'', v_previous_interaction),
              (''feedback'', v_feedback), (''outcome'', v_outcome)] of
        Inl e \<Rightarrow> (s, Inl e)
      | Inr system_prompt \<Rightarrow>
          (let user_prompt = Prompt ''learn_from_feedback.user'' [];
               req = \<lparr> req_system = system_prompt, req_user = user_prompt,
                       req_temperature = v_temperature, req_max_tokens = PInt 2048 \<rparr>
           in case agent_generate env s (self_evolving_llm s) req of
                (s1, Inl e) \<Rightarrow> (s1, Inl e)
              | (s1, Inr resp) \<Rightarrow>
                  (let s2 = emit CallNow s1;
                       l = \<lparr> timestamp = now_isoformat env (length (events s1)),
                             analysis = resp_content resp,
                             previous_interaction = v_previous_interaction,
                             feedback = v_feedback,
                             outcome = v_outcome,
                             model_used = resp_model resp \<rparr>
                   in (s2\<lparr>interaction_history := interaction_history s2 @ [l]\<rparr>, Inr l))))"

text \<open>
  \<open>h.get("previous_interaction", {}).get("task_type")\<close> on a history entry: the entry
  always has the key; a value that is not a dictionary has no \<open>get\<close>.
\<close>

fun stored_task_type :: "learning \<Rightarrow> error + pyval" where
  "stored_task_type h =
     (case previous_interaction h of
        PDict d \<Rightarrow> Inr (case map_of d ''task_type'' of None \<Rightarrow> PNone | Some v \<Rightarrow> v)
      | _ \<Rightarrow> Inl (AttributeError ''get''))"

text \<open>The list comprehension of \<open>adapt_strategy\<close>, entry by entry.\<close>

fun matching_history :: "string \<Rightarrow> learning list \<Rightarrow> error + learning list" where
  "matching_history task_type [] = Inr []"
| "matching_history task_type (h # hs) =
     (case stored_task_type h of
        Inl e \<Rightarrow> Inl e
      | Inr v \<Rightarrow>
          (case matching_history task_type hs of
             Inl e \<Rightarrow> Inl e
           | Inr r \<Rightarrow> Inr (if v = PStr task_type then h # r else r)))"

text \<open>The slice \<open>xs[-5:]\<close>.\<close>

definition last5 :: "'a list \<Rightarrow> 'a list" where
  "last5 xs = drop (length xs - 5) xs"

definition relevant_history :: "string \<Rightarrow> learning list \<Rightarrow> error + learning list" where
  "relevant_history task_type history =
     (case matching_history task_type history of
        Inl e \<Rightarrow> Inl e
      | Inr r \<Rightarrow> Inr (last5 r))"

text \<open>A history entry as the value \<open>json.dumps\<close> is given.\<close>

definition learning_items :: "learning \<Rightarrow> kwargs" where
  "learning_items h =
     [(''timestamp'', PStr (timestamp h)), (''analysis'', PStr (analysis h)),
      (''previous_interaction'', previous_interaction h), (''feedback'', feedback h),
      (''outcome'', outcome h), (''model_used'', PStr (model_used h))]"

definition learning_dict :: "learning \<Rightarrow> pyval" where
  "learning_dict h = PDict (learning_items h)"

text \<open>The system prompt of \<open>adapt_strategy\<close>, built from the task type and the slice.\<close>

definition adapt_system_prompt :: "string \<Rightarrow> learning list \<Rightarrow> prompt" where
  "adapt_system_prompt task_type relevant =
     Prompt ''adapt_strategy.system''
       [PStr task_type,
        if relevant \<noteq> [] then PList (map learning_dict relevant) else PStr ''No history yet'']"

definition adapt_user_prompt :: "string \<Rightarrow> pyval \<Rightarrow> prompt" where
  "adapt_user_prompt task_type v_context =
     Prompt ''adapt_strategy.user''
       [PStr task_type, if truthy v_context then v_context else PStr '''']"

text \<open>\<open>SelfEvolvingAgent.adapt_strategy\<close>.\<close>

definition adapt_strategy ::
  "environment \<Rightarrow> orchestrator \<Rightarrow> string \<Rightarrow> pyval \<Rightarrow> pyval \<Rightarrow> orchestrator \<times> (error + kwargs)" where
  "adapt_strategy env s task_type v_context v_temperature =
     (case relevant_history task_type (interaction_history s) of
        Inl e \<Rightarrow> (s, Inl e)
      | Inr relevant \<Rightarrow>
          (let req = \<lparr> req_system = adapt_system_prompt task_type relevant,
                       req_user = adapt_user_prompt task_type v_context,
                       req_temperature = v_temperature, req_max_tokens = PInt 2048 \<rparr>
           in case agent_generate env s (self_evolving_llm s) req of
                (s1, Inl e) \<Rightarrow> (s1, Inl e)
              | (s1, Inr resp) \<Rightarrow>
                  (s1, Inr [(''adapted_strategy'', PStr (resp_content resp)),
                            (''task_type'', PStr task_type),
                            (''based_on_interactions'', PInt (int (length relevant))),
                            (''model_used'', PStr (resp_model resp))])))"


section \<open>The other agents\<close>

text \<open>
  Every other agent operation ends the same way: inside a \<open>try\<close> it awaits
  \<open>self.llm.generate\<close>, builds its result dictionary from the response, and re-raises
  whatever was raised.
\<close>

definition agent_call ::
  "environment \<Rightarrow> orchestrator \<Rightarrow> llm option \<Rightarrow> request \<Rightarrow> (response \<Rightarrow> kwargs)
     \<Rightarrow> orchestrator \<times> (error + kwargs)" where
  "agent_call env s l req result =
     (case agent_generate env s l req of
        (s1, Inl e) \<Rightarrow> (s1, Inl e)
      | (s1, Inr resp) \<Rightarrow> (s1, Inr (result resp)))"

text \<open>\<open>x or d\<close> and the f-string fragment \<open>f"...{x}" if x else ""\<close>.\<close>

definition py_or :: "pyval \<Rightarrow> pyval \<Rightarrow> pyval" where
  "py_or x d = (if truthy x then x else d)"

definition if_given :: "pyval \<Rightarrow> pyval" where
  "if_given x = (if truthy x then x else PStr [])"

text \<open>\<open>CodeGeneratorAgent.generate_code\<close>.\<close>

definition generate_code ::
  "templates \<Rightarrow> environment \<Rightarrow> orchestrator \<Rightarrow> pyval \<Rightarrow> pyval \<Rightarrow> pyval \<Rightarrow> pyval \<Rightarrow> pyval
     \<Rightarrow> orchestrator \<times> (error + kwargs)" where
  "generate_code T env s v_prompt v_language v_context v_temperature v_max_tokens =
     (case format_template ''CODE_GENERATION_TEMPLATE'' (CODE_GENERATION_TEMPLATE T)
             [(''language'', v_language),
              (''context'', py_or v_context (PStr ''No additional context provided''))] of
        Inl e \<Rightarrow> (s, Inl e)
      | Inr system_prompt \<Rightarrow>
          agent_call env s (code_generator_llm s)
            \<lparr> req_system = system_prompt, req_user = Prompt ''generate_code.user'' [v_prompt],
              req_temperature = v_temperature, req_max_tokens = v_max_tokens \<rparr>
            (\<lambda>resp. [(''code'', PStr (resp_content resp)),
                     (''language'', v_language),
                     (''model_used'', PStr (resp_model resp)),
                     (''tokens_used'', PInt (resp_tokens_used resp)),
                     (''input_tokens'', PInt (resp_input_tokens resp)),
                     (''output_tokens'', PInt (resp_output_tokens resp))]))"

text \<open>
  \<open>CodeGeneratorAgent.stream_generate_code\<close>: the chunks the consumer receives and the
  fault that ends the iteration, if any.
\<close>

definition stream_generate_code ::
  "templates \<Rightarrow> environment \<Rightarrow> orchestrator \<Rightarrow> pyval \<Rightarrow> pyval \<Rightarrow> pyval \<Rightarrow> pyval \<Rightarrow> pyval
     \<Rightarrow> orchestrator \<times> string list \<times> error option" where
  "stream_generate_code T env s v_prompt v_language v_context v_temperature v_max_tokens =
     (case format_template ''CODE_GENERATION_TEMPLATE'' (CODE_GENERATION_TEMPLATE T)
             [(''language'', v_language),
              (''context'', py_or v_context (PStr ''No additional context provided''))] of
        Inl e \<Rightarrow> (s, [], Some e)
      | Inr system_prompt \<Rightarrow>
          (case code_generator_llm s of
             None \<Rightarrow> (s, [], Some (AttributeError ''stream_generate''))
           | Some a \<Rightarrow>
               (let req = \<lparr> req_system = system_prompt,
                            req_user = Prompt ''generate_code.user'' [v_prompt],
                            req_temperature = v_temperature, req_max_tokens = v_max_tokens \<rparr>
                in case llm_stream_generate env a (length (events s)) req of
                     (chunks, fault) \<Rightarrow> (emit (CallStream a req) s, chunks, fault))))"

text \<open>\<open>CodeReviewerAgent.review_code\<close>.\<close>

definition review_code ::
  "templates \<Rightarrow> environment \<Rightarrow> orchestrator \<Rightarrow> pyval \<Rightarrow> pyval \<Rightarrow> pyval \<Rightarrow> pyval \<Rightarrow> pyval
     \<Rightarrow> orchestrator \<times> (error + kwargs)" where
  "review_code T env s v_code v_language v_file_path v_temperature v_max_tokens =
     (case format_template ''CODE_REVIEW_TEMPLATE'' (CODE_REVIEW_TEMPLATE T)
             [(''language'', v_language),
              (''file_path'', py_or v_file_path (PStr ''Unknown file''))] of
        Inl e \<Rightarrow> (s, Inl e)
      | Inr system_prompt \<Rightarrow>
          agent_call env s (code_reviewer_llm s)
            \<lparr> req_system = system_prompt, req_user = Prompt ''review_code.user'' [v_code],
              req_temperature = v_temperature, req_max_tokens = v_max_tokens \<rparr>
            (\<lambda>resp. [(''review'', PStr (resp_content resp)),
                     (''language'', v_language),
                     (''file_path'', v_file_path),
                     (''model_used'', PStr (resp_model resp)),
                     (''tokens_used'', PInt (resp_tokens_used resp))]))"

text \<open>
  \<open>check_prompts.get(check_type, "")\<close> in \<open>quick_check\<close>: a list or a dictionary cannot
  be hashed.
\<close>

fun check_prompts_get :: "pyval \<Rightarrow> error + pyval" where
  "check_prompts_get (PList xs) = Inl (TypeError ''unhashable type'')"
| "check_prompts_get (PDict d) = Inl (TypeError ''unhashable type'')"
| "check_prompts_get (PStr k) =
     Inr (PStr
       (if k = ''security''
          then ''Focus on security vulnerabilities, injection risks, and authentication issues.''
        else if k = ''performance''
          then ''Focus on performance bottlenecks, inefficiencies, and optimization opportunities.''
        else if k = ''style''
          then ''Focus on code style, conventions, and readability.''
        else []))"
| "check_prompts_get v = Inr (PStr [])"

text \<open>\<open>CodeReviewerAgent.quick_check\<close>.\<close>

definition quick_check ::
  "environment \<Rightarrow> orchestrator \<Rightarrow> pyval \<Rightarrow> pyval \<Rightarrow> pyval \<Rightarrow> orchestrator \<times> (error + kwargs)" where
  "quick_check env s v_code v_language v_check_type =
     (case check_prompts_get v_check_type of
        Inl e \<Rightarrow> (s, Inl e)
      | Inr focus \<Rightarrow>
          agent_call env s (code_reviewer_llm s)
            \<lparr> req_system = Prompt ''quick_check.system'' [v_check_type, focus],
              req_user = Prompt ''quick_check.user'' [v_language, v_check_type, v_code],
              req_temperature = PDec 2 1, req_max_tokens = PInt 2048 \<rparr>
            (\<lambda>resp. [(''findings'', PStr (resp_content resp)),
                     (''check_type'', v_check_type),
                     (''language'', v_language),
                     (''model_used'', PStr (resp_model resp))]))"

text \<open>\<open>SystemArchitectAgent\<close>: \<open>design_architecture\<close>, \<open>suggest_patterns\<close>,
  \<open>optimize_architecture\<close>.\<close>

definition design_architecture ::
  "templates \<Rightarrow> environment \<Rightarrow> orchestrator \<Rightarrow> pyval \<Rightarrow> pyval \<Rightarrow> pyval \<Rightarrow> pyval \<Rightarrow> pyval
     \<Rightarrow> orchestrator \<times> (error + kwargs)" where
  "design_architecture T env s v_requirements v_current_architecture v_constraints
       v_temperature v_max_tokens =
     (case format_template ''SYSTEM_ARCHITECT_TEMPLATE'' (SYSTEM_ARCHITECT_TEMPLATE T)
             [(''requirements'', v_requirements),
              (''current_architecture'',
                 py_or v_current_architecture (PStr ''New project - no existing architecture''))] of
        Inl e \<Rightarrow> (s, Inl e)
      | Inr system_prompt \<Rightarrow>
          agent_call env s (system_architect_llm s)
            \<lparr> req_system = system_prompt,
              req_user = Prompt ''design_architecture.user'' [v_requirements, if_given v_constraints],
              req_temperature = v_temperature, req_max_tokens = v_max_tokens \<rparr>
            (\<lambda>resp. [(''architecture'', PStr (resp_content resp)),
                     (''requirements'', v_requirements),
                     (''model_used'', PStr (resp_model resp)),
                     (''tokens_used'', PInt (resp_tokens_used resp))]))"

definition suggest_patterns ::
  "environment \<Rightarrow> orchestrator \<Rightarrow> pyval \<Rightarrow> pyval \<Rightarrow> pyval \<Rightarrow> orchestrator \<times> (error + kwargs)" where
  "suggest_patterns env s v_problem_description v_language v_temperature =
     agent_call env s (system_architect_llm s)
       \<lparr> req_system = Prompt ''suggest_patterns.system'' [v_language],
         req_user = Prompt ''suggest_patterns.user'' [v_problem_description],
         req_temperature = v_temperature, req_max_tokens = PInt 3096 \<rparr>
       (\<lambda>resp. [(''suggestions'', PStr (resp_content resp)),
                (''problem'', v_problem_description),
                (''language'', v_language),
                (''model_used'', PStr (resp_model resp))])"

definition optimize_architecture ::
  "environment \<Rightarrow> orchestrator \<Rightarrow> pyval \<Rightarrow> pyval \<Rightarrow> pyval \<Rightarrow> orchestrator \<times> (error + kwargs)" where
  "optimize_architecture env s v_current_design v_bottlenecks v_temperature =
     agent_call env s (system_architect_llm s)
       \<lparr> req_system = Prompt ''optimize_architecture.system'' [],
         req_user = Prompt ''optimize_architecture.user'' [v_current_design, if_given v_bottlenecks],
         req_temperature = v_temperature, req_max_tokens = PInt 3096 \<rparr>
       (\<lambda>resp. [(''optimizations'', PStr (resp_content resp)),
                (''current_design'', v_current_design),
                (''model_used'', PStr (resp_model resp))])"


text \<open>
  \<open>GitHubMCPAgent\<close>. The GitHub client is called inside the operation's \<open>try\<close>; a
  failed code search is logged and ignored, any other failure ends the operation. The
  dictionaries the client returns have every key the operations read.
\<close>

definition analyze_repository ::
  "templates \<Rightarrow> environment \<Rightarrow> orchestrator \<Rightarrow> pyval \<Rightarrow> pyval \<Rightarrow> pyval
     \<Rightarrow> orchestrator \<times> (error + kwargs)" where
  "analyze_repository T env s v_repo_url v_analysis_type v_temperature =
     (let s1 = emit (CallGithub ''get_repository_info'') s in
      case github_get_repository_info env (length (events s)) v_repo_url of
        Inl e \<Rightarrow> (s1, Inl e)
      | Inr repo_info \<Rightarrow>
          (let s2 = emit (CallGithub ''get_languages'') s1 in
           case github_get_languages env (length (events s1)) v_repo_url of
             Inl e \<Rightarrow> (s2, Inl e)
           | Inr languages \<Rightarrow>
               (let repo_context = PList [PDict repo_info, PList (map (PStr \<circ> fst) languages)] in
                case format_template ''GITHUB_MCP_TEMPLATE'' (GITHUB_MCP_TEMPLATE T)
                       [(''repo_context'', repo_context), (''operation'', v_analysis_type)] of
                  Inl e \<Rightarrow> (s2, Inl e)
                | Inr system_prompt \<Rightarrow>
                    agent_call env s2 (github_mcp_llm s2)
                      \<lparr> req_system = system_prompt,
                        req_user = Prompt ''analyze_repository.user''
                                     [v_analysis_type, repo_context, v_analysis_type],
                        req_temperature = v_temperature, req_max_tokens = PInt 3096 \<rparr>
                      (\<lambda>resp. [(''analysis'', PStr (resp_content resp)),
                               (''repo_info'', PDict repo_info),
                               (''languages'', PDict languages),
                               (''analysis_type'', v_analysis_type),
                               (''model_used'', PStr (resp_model resp))]))))"

definition suggest_pr_description ::
  "environment \<Rightarrow> orchestrator \<Rightarrow> pyval \<Rightarrow> pyval \<Rightarrow> pyval \<Rightarrow> orchestrator \<times> (error + kwargs)" where
  "suggest_pr_description env s v_changes v_context v_temperature =
     agent_call env s (github_mcp_llm s)
       \<lparr> req_system = Prompt ''suggest_pr_description.system'' [],
         req_user = Prompt ''suggest_pr_description.user'' [v_changes, if_given v_context],
         req_temperature = v_temperature, req_max_tokens = PInt 2048 \<rparr>
       (\<lambda>resp. [(''pr_description'', PStr (resp_content resp)),
                (''model_used'', PStr (resp_model resp))])"

definition code_search_assistant ::
  "environment \<Rightarrow> orchestrator \<Rightarrow> pyval \<Rightarrow> pyval \<Rightarrow> pyval \<Rightarrow> orchestrator \<times> (error + kwargs)" where
  "code_search_assistant env s v_search_query v_repo_url v_temperature =
     (let (s1, search_results) =
            (if github_authenticated s
             then (emit (CallGithub ''search_code'') s,
                   (case github_search_code env (length (events s)) v_search_query v_repo_url of
                      Inl e \<Rightarrow> []
                    | Inr rs \<Rightarrow> rs))
             else (s, []));
          results_text =
            (if search_results \<noteq> [] then PList (take 5 search_results)
             else PStr ''No search results available'')
      in agent_call env s1 (github_mcp_llm s1)
           \<lparr> req_system = Prompt ''code_search_assistant.system'' [],
             req_user = Prompt ''code_search_assistant.user''
                          [v_search_query, if_given v_repo_url, results_text],
             req_temperature = v_temperature, req_max_tokens = PInt 2048 \<rparr>
           (\<lambda>resp. [(''search_guidance'', PStr (resp_content resp)),
                    (''search_results'', PList search_results),
                    (''query'', v_search_query),
                    (''model_used'', PStr (resp_model resp))]))"

section \<open>Calling the operations with keyword arguments\<close>

text \<open>
  \<open>route_request\<close> and \<open>stream_generate\<close> pass their \<open>**kwargs\<close> on. Each wrapper binds
  them to the signature of the operation, with the defaults of the source, and calls it.
\<close>

definition call_generate_code ::
  "templates \<Rightarrow> environment \<Rightarrow> orchestrator \<Rightarrow> kwargs \<Rightarrow> orchestrator \<times> (error + kwargs)" where
  "call_generate_code T env s kw =
     (case bind_kwargs [''prompt'']
             [(''language'', PStr ''python''), (''context'', PNone),
              (''temperature'', PDec 2 1), (''max_tokens'', PInt 4096)] kw of
        Inl e \<Rightarrow> (s, Inl e)
      | Inr a \<Rightarrow>
          generate_code T env s (a ''prompt'') (a ''language'') (a ''context'')
            (a ''temperature'') (a ''max_tokens''))"

definition call_stream_generate_code ::
  "templates \<Rightarrow> environment \<Rightarrow> orchestrator \<Rightarrow> kwargs
     \<Rightarrow> orchestrator \<times> string list \<times> error option" where
  "call_stream_generate_code T env s kw =
     (case bind_kwargs [''prompt'']
             [(''language'', PStr ''python''), (''context'', PNone),
              (''temperature'', PDec 2 1), (''max_tokens'', PInt 4096)] kw of
        Inl e \<Rightarrow> (s, [], Some e)
      | Inr a \<Rightarrow>
          stream_generate_code T env s (a ''prompt'') (a ''language'') (a ''context'')
            (a ''temperature'') (a ''max_tokens''))"

definition call_review_code ::
  "templates \<Rightarrow> environment \<Rightarrow> orchestrator \<Rightarrow> kwargs \<Rightarrow> orchestrator \<times> (error + kwargs)" where
  "call_review_code T env s kw =
     (case bind_kwargs [''code'']
             [(''language'', PStr ''python''), (''file_path'', PNone),
              (''temperature'', PDec 3 1), (''max_tokens'', PInt 4096)] kw of
        Inl e \<Rightarrow> (s, Inl e)
      | Inr a \<Rightarrow>
          review_code T env s (a ''code'') (a ''language'') (a ''file_path'')
            (a ''temperature'') (a ''max_tokens''))"

definition call_quick_check ::
  "environment \<Rightarrow> orchestrator \<Rightarrow> kwargs \<Rightarrow> orchestrator \<times> (error + kwargs)" where
  "call_quick_check env s kw =
     (case bind_kwargs [''code'']
             [(''language'', PStr ''python''), (''check_type'', PStr ''security'')] kw of
        Inl e \<Rightarrow> (s, Inl e)
      | Inr a \<Rightarrow> quick_check env s (a ''code'') (a ''language'') (a ''check_type''))"

definition call_design_architecture ::
  "templates \<Rightarrow> environment \<Rightarrow> orchestrator \<Rightarrow> kwargs \<Rightarrow> orchestrator \<times> (error + kwargs)" where
  "call_design_architecture T env s kw =
     (case bind_kwargs [''requirements'']
             [(''current_architecture'', PNone), (''constraints'', PNone),
              (''temperature'', PDec 4 1), (''max_tokens'', PInt 4096)] kw of
        Inl e \<Rightarrow> (s, Inl e)
      | Inr a \<Rightarrow>
          design_architecture T env s (a ''requirements'') (a ''current_architecture'')
            (a ''constraints'') (a ''temperature'') (a ''max_tokens''))"

definition call_suggest_patterns ::
  "environment \<Rightarrow> orchestrator \<Rightarrow> kwargs \<Rightarrow> orchestrator \<times> (error + kwargs)" where
  "call_suggest_patterns env s kw =
     (case bind_kwargs [''problem_description'']
             [(''language'', PStr ''python''), (''temperature'', PDec 3 1)] kw of
        Inl e \<Rightarrow> (s, Inl e)
      | Inr a \<Rightarrow>
          suggest_patterns env s (a ''problem_description'') (a ''language'') (a ''temperature''))"

definition call_optimize_architecture ::
  "environment \<Rightarrow> orchestrator \<Rightarrow> kwargs \<Rightarrow> orchestrator \<times> (error + kwargs)" where
  "call_optimize_architecture env s kw =
     (case bind_kwargs [''current_design'']
             [(''bottlenecks'', PNone), (''temperature'', PDec 3 1)] kw of
        Inl e \<Rightarrow> (s, Inl e)
      | Inr a \<Rightarrow>
          optimize_architecture env s (a ''current_design'') (a ''bottlenecks'') (a ''temperature''))"

definition call_analyze_repository ::
  "templates \<Rightarrow> environment \<Rightarrow> orchestrator \<Rightarrow> kwargs \<Rightarrow> orchestrator \<times> (error + kwargs)" where
  "call_analyze_repository T env s kw =
     (case bind_kwargs [''repo_url'']
             [(''analysis_type'', PStr ''structure''), (''temperature'', PDec 3 1)] kw of
        Inl e \<Rightarrow> (s, Inl e)
      | Inr a \<Rightarrow>
          analyze_repository T env s (a ''repo_url'') (a ''analysis_type'') (a ''temperature''))"

definition call_suggest_pr_description ::
  "environment \<Rightarrow> orchestrator \<Rightarrow> kwargs \<Rightarrow> orchestrator \<times> (error + kwargs)" where
  "call_suggest_pr_description env s kw =
     (case bind_kwargs [''changes''] [(''context'', PNone), (''temperature'', PDec 3 1)] kw of
        Inl e \<Rightarrow> (s, Inl e)
      | Inr a \<Rightarrow>
          suggest_pr_description env s (a ''changes'') (a ''context'') (a ''temperature''))"

definition call_code_search_assistant ::
  "environment \<Rightarrow> orchestrator \<Rightarrow> kwargs \<Rightarrow> orchestrator \<times> (error + kwargs)" where
  "call_code_search_assistant env s kw =
     (case bind_kwargs [''search_query''] [(''repo_url'', PNone), (''temperature'', PDec 3 1)] kw of
        Inl e \<Rightarrow> (s, Inl e)
      | Inr a \<Rightarrow>
          code_search_assistant env s (a ''search_query'') (a ''repo_url'') (a ''temperature''))"

definition call_learn_from_feedback ::
  "templates \<Rightarrow> environment \<Rightarrow> orchestrator \<Rightarrow> kwargs \<Rightarrow> orchestrator \<times> (error + kwargs)" where
  "call_learn_from_feedback T env s kw =
     (case bind_kwargs [''previous_interaction'', ''feedback'', ''outcome'']
             [(''temperature'', PDec 4 1)] kw of
        Inl e \<Rightarrow> (s, Inl e)
      | Inr a \<Rightarrow>
          (case learn_from_feedback T env s (a ''previous_interaction'') (a ''feedback'')
                  (a ''outcome'') (a ''temperature'') of
             (s1, Inl e) \<Rightarrow> (s1, Inl e)
           | (s1, Inr l) \<Rightarrow> (s1, Inr (learning_items l))))"

text \<open>
  \<open>adapt_strategy\<close> requires \<open>task_type\<close>, a string by its signature. Under
  \<open>route_request\<close> the keyword \<open>task_type\<close> is the router's own parameter and never
  reaches \<open>**kwargs\<close>, so there the binding fails; the last case is for a value that is
  not a string, which the signature excludes.
\<close>

definition call_adapt_strategy ::
  "environment \<Rightarrow> orchestrator \<Rightarrow> kwargs \<Rightarrow> orchestrator \<times> (error + kwargs)" where
  "call_adapt_strategy env s kw =
     (case bind_kwargs [''task_type''] [(''context'', PNone), (''temperature'', PDec 3 1)] kw of
        Inl e \<Rightarrow> (s, Inl e)
      | Inr a \<Rightarrow>
          (case a ''task_type'' of
             PStr t \<Rightarrow> adapt_strategy env s t (a ''context'') (a ''temperature'')
           | _ \<Rightarrow> (s, Inl (TypeError ''task_type''))))"


section \<open>The orchestrator\<close>

text \<open>The fields of \<open>app/config.py\<close> the orchestrator reads.\<close>

record settings =
  anthropic_api_key :: "string option"
  openai_api_key :: "string option"
  gemini_api_key :: "string option"
  github_token :: "string option"
  default_model :: string
  enable_fallback :: bool

text \<open>The truth value of an optional string: neither \<open>None\<close> nor empty.\<close>

definition str_given :: "string option \<Rightarrow> bool" where
  "str_given x = (case x of None \<Rightarrow> False | Some v \<Rightarrow> v \<noteq> [])"

text \<open>
  One block of \<open>AgentOrchestrator.__init__\<close>: if the key is set, construct the client and
  store it under its name; a constructor that raises is logged and leaves the registry
  as it was.
\<close>

definition register ::
  "environment \<Rightarrow> string option \<Rightarrow> string \<Rightarrow> llm \<Rightarrow> (string \<times> llm) list \<Rightarrow> (string \<times> llm) list" where
  "register env key name a reg =
     (if str_given key
      then (case construct env a of None \<Rightarrow> reg @ [(name, a)] | Some msg \<Rightarrow> reg)
      else reg)"

definition init_llms :: "settings \<Rightarrow> environment \<Rightarrow> (string \<times> llm) list" where
  "init_llms cfg env =
     register env (gemini_api_key cfg) ''gemini'' GeminiClient
       (register env (openai_api_key cfg) ''openai'' OpenAIClient
          (register env (anthropic_api_key cfg) ''claude'' ClaudeSonnetClient []))"

text \<open>\<open>AgentOrchestrator.__init__\<close>.\<close>

definition AgentOrchestrator_init :: "settings \<Rightarrow> environment \<Rightarrow> error + orchestrator" where
  "AgentOrchestrator_init cfg env =
     (case init_llms cfg env of
        [] \<Rightarrow>
          Inl (RuntimeError ''No LLM clients initialized! Please provide at least one API key.'')
      | (name, first) # rest \<Rightarrow>
          (let primary =
                 (case map_of ((name, first) # rest) (default_model cfg) of
                    Some a \<Rightarrow> a
                  | None \<Rightarrow> first)
           in Inr \<lparr> llms = (name, first) # rest,
                    primary_llm = primary,
                    code_generator_llm = Some primary,
                    code_reviewer_llm = Some primary,
                    system_architect_llm = Some primary,
                    github_mcp_llm = Some primary,
                    github_authenticated = (github_token cfg \<noteq> None),
                    self_evolving_llm = Some primary,
                    interaction_history = [],
                    events = [] \<rparr>))"


definition get_llm :: "orchestrator \<Rightarrow> string option \<Rightarrow> llm" where
  "get_llm s model_name =
     (case model_name of
        None \<Rightarrow> primary_llm s
      | Some m \<Rightarrow>
          (if m \<noteq> [] then (case map_of (llms s) m of Some a \<Rightarrow> a | None \<Rightarrow> primary_llm s)
           else primary_llm s))"

text \<open>
  The body of the \<open>try\<close> of \<open>route_request\<close>. Three branches rebind the agent's \<open>llm\<close>
  when a model was named, keep the old value in \<open>original_llm\<close> and assign it back after
  the operation has returned; an operation that raises leaves the branch at once. The other
  branches call the operation on the agent as it is.
\<close>

definition dispatch ::
  "templates \<Rightarrow> environment \<Rightarrow> orchestrator \<Rightarrow> string \<Rightarrow> string option \<Rightarrow> llm \<Rightarrow> kwargs
     \<Rightarrow> orchestrator \<times> (error + kwargs)" where
  "dispatch T env s task_type model target_llm kw =
     (if task_type = ''generate'' then
        (let original_llm = (if str_given model then code_generator_llm s else None);
             s1 = (if str_given model then s\<lparr>code_generator_llm := Some target_llm\<rparr> else s)
         in case call_generate_code T env s1 kw of
              (s2, Inl e) \<Rightarrow> (s2, Inl e)
            | (s2, Inr result) \<Rightarrow>
                ((case original_llm of
                    Some a \<Rightarrow> s2\<lparr>code_generator_llm := Some a\<rparr>
                  | None \<Rightarrow> s2), Inr result))
      else if task_type = ''review'' then
        (let original_llm = (if str_given model then code_reviewer_llm s else None);
             s1 = (if str_given model then s\<lparr>code_reviewer_llm := Some target_llm\<rparr> else s)
         in case call_review_code T env s1 kw of
              (s2, Inl e) \<Rightarrow> (s2, Inl e)
            | (s2, Inr result) \<Rightarrow>
                ((case original_llm of
                    Some a \<Rightarrow> s2\<lparr>code_reviewer_llm := Some a\<rparr>
                  | None \<Rightarrow> s2), Inr result))
      else if task_type = ''quick-check'' then call_quick_check env s kw
      else if task_type = ''architecture'' then
        (let original_llm = (if str_given model then system_architect_llm s else None);
             s1 = (if str_given model then s\<lparr>system_architect_llm := Some target_llm\<rparr> else s)
         in case call_design_architecture T env s1 kw of
              (s2, Inl e) \<Rightarrow> (s2, Inl e)
            | (s2, Inr result) \<Rightarrow>
                ((case original_llm of
                    Some a \<Rightarrow> s2\<lparr>system_architect_llm := Some a\<rparr>
                  | None \<Rightarrow> s2), Inr result))
      else if task_type = ''suggest-patterns'' then call_suggest_patterns env s kw
      else if task_type = ''optimize-architecture'' then call_optimize_architecture env s kw
      else if task_type = ''analyze-repo'' then call_analyze_repository T env s kw
      else if task_type = ''pr-description'' then call_suggest_pr_description env s kw
      else if task_type = ''code-search'' then call_code_search_assistant env s kw
      else if task_type = ''learn'' then call_learn_from_feedback T env s kw
      else if task_type = ''adapt'' then call_adapt_strategy env s kw
      else (s, Inl (ValueError (''Unknown task type: '' @ task_type))))"

text \<open>
  \<open>route_request\<close>: log, resolve the target (the test \<open>model and model in self.llms\<close>
  is the one of \<open>get_llm\<close>), run the \<open>try\<close>; in the handler log the fault
  and, when fallback is on, the model named is not \<open>openai\<close> and \<open>openai\<close> is in the
  registry, call \<open>route_request\<close> again with \<open>model = 'openai'\<close>, else re-raise.
  \<open>kw\<close> is what \<open>**kwargs\<close> collected.
\<close>

function route_request ::
  "settings \<Rightarrow> templates \<Rightarrow> environment \<Rightarrow> orchestrator \<Rightarrow> string \<Rightarrow> string option \<Rightarrow> kwargs
     \<Rightarrow> orchestrator \<times> (error + kwargs)" where
  "route_request cfg T env s task_type model kw =
     (let s0 = emit (LogRouting task_type model) s;
          target_llm = get_llm s0 model
      in case dispatch T env s0 task_type model target_llm kw of
           (s1, Inr result) \<Rightarrow> (s1, Inr result)
         | (s1, Inl e) \<Rightarrow>
             (let s2 = emit (LogErrorRouting task_type e) s1
              in if enable_fallback cfg \<and> model \<noteq> Some ''openai''
                    \<and> ''openai'' \<in> set (map fst (llms s2))
                 then route_request cfg T env (emit LogFallback s2) task_type (Some ''openai'') kw
                 else (s2, Inl e)))"
  by pat_completeness auto
termination
  by (relation "measure (\<lambda>(cfg, T, env, s, task_type, model, kw).
                  if model = Some ''openai'' then 0 else 1)") auto

text \<open>\<open>str(e)\<close> and the fragment \<open>stream_generate\<close> yields for a fault.\<close>

fun error_str :: "error \<Rightarrow> string" where
  "error_str (ValueError m) = m"
| "error_str (TypeError m) = m"
| "error_str (KeyError k) = [CHR 0x27] @ k @ [CHR 0x27]"
| "error_str (AttributeError m) = m"
| "error_str (RuntimeError m) = m"
| "error_str (ProviderError m) = m"
| "error_str (GithubException m) = m"

definition error_fragment :: "error \<Rightarrow> string" where
  "error_fragment e = [CHR 0x0A, CHR 0x0A] @ ''Error: '' @ error_str e"

text \<open>
  \<open>stream_generate\<close>, as the list of fragments a consumer that reads to the end receives.
  The target is \<open>self.llms.get(model)\<close> when a model is named, which is \<open>None\<close> for a
  name the registry does not have. The \<open>finally\<close> assigns the old adapter back on every
  path.
\<close>

definition stream_generate ::
  "settings \<Rightarrow> templates \<Rightarrow> environment \<Rightarrow> orchestrator \<Rightarrow> string option \<Rightarrow> kwargs
     \<Rightarrow> orchestrator \<times> string list" where
  "stream_generate cfg T env s model kw =
     (let s0 = emit (LogStreaming model) s;
          target_llm =
            (case model of
               None \<Rightarrow> Some (primary_llm s0)
             | Some m \<Rightarrow> (if m \<noteq> [] then map_of (llms s0) m else Some (primary_llm s0)));
          original_llm = code_generator_llm s0;
          s1 = s0\<lparr>code_generator_llm := target_llm\<rparr>
      in case call_stream_generate_code T env s1 kw of
           (s2, chunks, None) \<Rightarrow> (s2\<lparr>code_generator_llm := original_llm\<rparr>, chunks)
         | (s2, chunks, Some e) \<Rightarrow>
             (let s3 = emit (LogErrorStream e) s2
              in if enable_fallback cfg \<and> model \<noteq> Some ''openai''
                    \<and> ''openai'' \<in> set (map fst (llms s3))
                 then
                   (let s4 = emit LogFallbackStream s3;
                        s5 = s4\<lparr>code_generator_llm := map_of (llms s4) ''openai''\<rparr>
                    in case call_stream_generate_code T env s5 kw of
                         (s6, chunks2, None) \<Rightarrow>
                           (s6\<lparr>code_generator_llm := original_llm\<rparr>, chunks @ chunks2)
                       | (s6, chunks2, Some fallback_error) \<Rightarrow>
                           ((emit (LogFallbackFailed fallback_error) s6)
                              \<lparr>code_generator_llm := original_llm\<rparr>,
                            chunks @ chunks2 @ [error_fragment fallback_error]))
                 else (s3\<lparr>code_generator_llm := original_llm\<rparr>,
                       chunks @ [error_fragment e])))"

declare route_request.simps [simp del]

section \<open>Reading the trace\<close>

text \<open>
  The definitions of this section are not code of the repository. They name what the
  properties below speak about: which events are calls out of the process, which events
  a run has added, which adapter a dispatched operation is bound to.
\<close>


fun is_call :: "event \<Rightarrow> bool" where
  "is_call (CallGenerate a q) = True"
| "is_call (CallStream a q) = True"
| "is_call (CallGithub n) = True"
| "is_call CallNow = True"
| "is_call e = False"

fun is_routing :: "event \<Rightarrow> bool" where
  "is_routing (LogRouting t m) = True"
| "is_routing e = False"

fun is_fallback :: "event \<Rightarrow> bool" where
  "is_fallback LogFallback = True"
| "is_fallback e = False"

text \<open>The adapters on which \<open>generate\<close> was called, in order.\<close>

fun generate_calls :: "event list \<Rightarrow> llm list" where
  "generate_calls [] = []"
| "generate_calls (CallGenerate a q # es) = a # generate_calls es"
| "generate_calls (e # es) = generate_calls es"

text \<open>The events of \<open>s'\<close> that \<open>s\<close> did not have yet.\<close>

definition new_events :: "orchestrator \<Rightarrow> orchestrator \<Rightarrow> event list" where
  "new_events s s' = drop (length (events s)) (events s')"

text \<open>
  What an agent operation may do to the state: append calls to the trace and (for the
  feedback learner) change the history, nothing else; every \<open>generate\<close> call is on the
  adapter \<open>l\<close>, and a result is only returned after such a call.
\<close>

definition op_effect :: "llm option \<Rightarrow> orchestrator \<Rightarrow> orchestrator \<Rightarrow> (error + 'a) \<Rightarrow> bool" where
  "op_effect l s s' r \<longleftrightarrow>
     (\<exists>es h. s' = s\<lparr>interaction_history := h, events := events s @ es\<rparr>
        \<and> list_all is_call es
        \<and> (\<forall>b q. CallGenerate b q \<in> set es \<longrightarrow> l = Some b)
        \<and> ((\<exists>v. r = Inr v) \<longrightarrow> (\<exists>b q. CallGenerate b q \<in> set es)))"

text \<open>The same, as far as the registry, the primary adapter and the trace can tell.\<close>

definition trace_effect :: "llm option \<Rightarrow> orchestrator \<Rightarrow> orchestrator \<Rightarrow> (error + 'a) \<Rightarrow> bool" where
  "trace_effect l s s' r \<longleftrightarrow>
     llms s' = llms s \<and> primary_llm s' = primary_llm s
     \<and> (\<exists>es. events s' = events s @ es
            \<and> list_all is_call es
            \<and> (\<forall>b q. CallGenerate b q \<in> set es \<longrightarrow> l = Some b)
            \<and> ((\<exists>v. r = Inr v) \<longrightarrow> (\<exists>b q. CallGenerate b q \<in> set es)))"
lemma op_effectI:
  assumes "s' = s\<lparr>interaction_history := h, events := events s @ es\<rparr>"
    and "list_all is_call es"
    and "\<forall>b q. CallGenerate b q \<in> set es \<longrightarrow> l = Some b"
    and "(\<exists>v. r = Inr v) \<longrightarrow> (\<exists>b q. CallGenerate b q \<in> set es)"
  shows "op_effect l s s' r"
  unfolding op_effect_def
  by (rule exI[of _ es], rule exI[of _ h]) (intro conjI assms)

text \<open>
  The adapter the operation dispatched for \<open>task_type\<close> calls: the target where the branch
  of \<open>dispatch\<close> rebinds the agent (a model was named), else the agent's own attribute.
\<close>

definition bound_llm :: "orchestrator \<Rightarrow> string \<Rightarrow> string option \<Rightarrow> llm \<Rightarrow> llm option" where
  "bound_llm s task_type model target_llm =
     (if task_type = ''generate'' then
        (if str_given model then Some target_llm else code_generator_llm s)
      else if task_type = ''review'' then
        (if str_given model then Some target_llm else code_reviewer_llm s)
      else if task_type = ''quick-check'' then code_reviewer_llm s
      else if task_type = ''architecture'' then
        (if str_given model then Some target_llm else system_architect_llm s)
      else if task_type = ''suggest-patterns'' then system_architect_llm s
      else if task_type = ''optimize-architecture'' then system_architect_llm s
      else if task_type = ''analyze-repo'' then github_mcp_llm s
      else if task_type = ''pr-description'' then github_mcp_llm s
      else if task_type = ''code-search'' then github_mcp_llm s
      else if task_type = ''learn'' then self_evolving_llm s
      else if task_type = ''adapt'' then self_evolving_llm s
      else None)"

text \<open>The task types \<open>route_request\<close> has a branch for.\<close>

definition task_types :: "string list" where
  "task_types =
     [''generate'', ''review'', ''quick-check'', ''architecture'', ''suggest-patterns'',
      ''optimize-architecture'', ''analyze-repo'', ''pr-description'', ''code-search'',
      ''learn'', ''adapt'']"

text \<open>
  One pass through the body of \<open>route_request\<close>: the log line, the \<open>try\<close> and the first
  log line of the handler, without the decision on fallback. \<open>route_request_unfold\<close> below
  shows that \<open>route_request\<close> is one pass, or two when the first faults and fallback is
  eligible.
\<close>

definition route_attempt ::
  "templates \<Rightarrow> environment \<Rightarrow> orchestrator \<Rightarrow> string \<Rightarrow> string option \<Rightarrow> kwargs
     \<Rightarrow> orchestrator \<times> (error + kwargs)" where
  "route_attempt T env s task_type model kw =
     (let s0 = emit (LogRouting task_type model) s
      in case dispatch T env s0 task_type model (get_llm s0 model) kw of
           (s1, Inr result) \<Rightarrow> (s1, Inr result)
         | (s1, Inl e) \<Rightarrow> (emit (LogErrorRouting task_type e) s1, Inl e))"

text \<open>The condition of the handler, in the state the call started from.\<close>

definition fallback_eligible :: "settings \<Rightarrow> orchestrator \<Rightarrow> string option \<Rightarrow> bool" where
  "fallback_eligible cfg s model \<longleftrightarrow>
     enable_fallback cfg \<and> model \<noteq> Some ''openai'' \<and> ''openai'' \<in> set (map fst (llms s))"


text \<open>
  The registry as the specification words it: of the three backends, in configuration
  order, those whose key is configured and whose adapter could be constructed.
\<close>

definition constructed_backends :: "settings \<Rightarrow> environment \<Rightarrow> (string \<times> llm) list" where
  "constructed_backends cfg env =
     map snd
       (filter (\<lambda>(key, name, a). str_given key \<and> construct env a = None)
          [(anthropic_api_key cfg, ''claude'', ClaudeSonnetClient),
           (openai_api_key cfg, ''openai'', OpenAIClient),
           (gemini_api_key cfg, ''gemini'', GeminiClient)])"

section \<open>Example configurations\<close>

text \<open>
  Two deployments and an outside world for them. In the first, Claude and Gemini are
  configured and Claude is the default; in the second only OpenAI is configured, which
  makes it the primary adapter. In the world, Claude answers and streams to the end, the
  other providers fail. Each state is the one \<open>AgentOrchestrator_init\<close> returns
  (\<open>example_state_init\<close>, \<open>openai_state_init\<close>).
\<close>

definition example_response :: "llm \<Rightarrow> response" where
  "example_response a =
     \<lparr> resp_content = ''def f(): pass'',
       resp_model = (if a = ClaudeSonnetClient then ''claude-sonnet-4-20250514''
                     else if a = OpenAIClient then ''gpt-4-turbo-preview''
                     else ''gemini-2.0-flash-exp''),
       resp_tokens_used = 12, resp_input_tokens = 7, resp_output_tokens = 5 \<rparr>"

definition example_env :: environment where
  "example_env =
     \<lparr> construct = (\<lambda>a. None),
       llm_generate = (\<lambda>a n q. if a = ClaudeSonnetClient then Inr (example_response a)
                                 else Inl (ProviderError ''rate limit exceeded'')),
       llm_stream_generate = (\<lambda>a n q. if a = ClaudeSonnetClient then ([''def '', ''f():''], None)
                                        else ([''def ''], Some (ProviderError ''connection reset''))),
       now_isoformat = (\<lambda>n. ''2025-01-01T00:00:00''),
       github_get_repository_info = (\<lambda>n u. Inl (GithubException ''404'')),
       github_get_languages = (\<lambda>n u. Inl (GithubException ''404'')),
       github_search_code = (\<lambda>n x u. Inl (GithubException ''404'')) \<rparr>"

definition example_settings :: settings where
  "example_settings =
     \<lparr> anthropic_api_key = Some ''sk-ant-000000000000000000'',
       openai_api_key = None,
       gemini_api_key = Some ''AIza0000000000000000000000'',
       github_token = None,
       default_model = ''claude'',
       enable_fallback = True \<rparr>"

definition example_state :: orchestrator where
  "example_state =
     \<lparr> llms = [(''claude'', ClaudeSonnetClient), (''gemini'', GeminiClient)],
       primary_llm = ClaudeSonnetClient,
       code_generator_llm = Some ClaudeSonnetClient,
       code_reviewer_llm = Some ClaudeSonnetClient,
       system_architect_llm = Some ClaudeSonnetClient,
       github_mcp_llm = Some ClaudeSonnetClient,
       github_authenticated = False,
       self_evolving_llm = Some ClaudeSonnetClient,
       interaction_history = [],
       events = [] \<rparr>"

definition openai_settings :: settings where
  "openai_settings =
     \<lparr> anthropic_api_key = None,
       openai_api_key = Some ''sk-00000000000000000000'',
       gemini_api_key = None,
       github_token = None,
       default_model = ''claude'',
       enable_fallback = True \<rparr>"

definition openai_state :: orchestrator where
  "openai_state =
     \<lparr> llms = [(''openai'', OpenAIClient)],
       primary_llm = OpenAIClient,
       code_generator_llm = Some OpenAIClient,
       code_reviewer_llm = Some OpenAIClient,
       system_architect_llm = Some OpenAIClient,
       github_mcp_llm = Some OpenAIClient,
       github_authenticated = False,
       self_evolving_llm = Some OpenAIClient,
       interaction_history = [],
       events = [] \<rparr>"


text \<open>A history of eight entries, six of them for reviews.\<close>

definition example_learning :: "string \<Rightarrow> string \<Rightarrow> learning" where
  "example_learning stamp task =
     \<lparr> timestamp = stamp, analysis = ''use smaller functions'',
       previous_interaction = PDict [(''task_type'', PStr task)],
       feedback = PStr ''too long'', outcome = PStr ''failure'',
       model_used = ''claude-sonnet-4-20250514'' \<rparr>"

definition example_history :: "learning list" where
  "example_history =
     [example_learning ''1'' ''review'', example_learning ''2'' ''generate'',
      example_learning ''3'' ''review'', example_learning ''4'' ''review'',
      example_learning ''5'' ''architecture'', example_learning ''6'' ''review'',
      example_learning ''7'' ''review'', example_learning ''8'' ''review'']"

text \<open>
  A world in which only Gemini fails, and a deployment with all three backends configured;
  \<open>full_state\<close> is what \<open>AgentOrchestrator_init\<close> returns for it (\<open>full_state_init\<close>).
  \<open>learned_state\<close> is the first deployment after the feedback learner has stored the
  example history.
\<close>

definition gemini_down_env :: environment where
  "gemini_down_env =
     example_env
       \<lparr> llm_generate := (\<lambda>a n q. if a = GeminiClient then Inl (ProviderError ''rate limit exceeded'')
                                  else Inr (example_response a)) \<rparr>"

definition full_settings :: settings where
  "full_settings =
     \<lparr> anthropic_api_key = Some ''sk-ant-000000000000000000'',
       openai_api_key = Some ''sk-00000000000000000000'',
       gemini_api_key = Some ''AIza0000000000000000000000'',
       github_token = None,
       default_model = ''claude'',
       enable_fallback = True \<rparr>"

definition full_state :: orchestrator where
  "full_state =
     \<lparr> llms = [(''claude'', ClaudeSonnetClient), (''openai'', OpenAIClient),
               (''gemini'', GeminiClient)],
       primary_llm = ClaudeSonnetClient,
       code_generator_llm = Some ClaudeSonnetClient,
       code_reviewer_llm = Some ClaudeSonnetClient,
       system_architect_llm = Some ClaudeSonnetClient,
       github_mcp_llm = Some ClaudeSonnetClient,
       github_authenticated = False,
       self_evolving_llm = Some ClaudeSonnetClient,
       interaction_history = [],
       events = [] \<rparr>"

definition learned_state :: orchestrator where
  "learned_state = example_state\<lparr>interaction_history := example_history\<rparr>"

text \<open>Worlds in which the constructor of the Claude client, or of every client, raises.\<close>

definition claude_rejected_env :: environment where
  "claude_rejected_env =
     gemini_down_env
       \<lparr> construct := (\<lambda>a. if a = ClaudeSonnetClient then Some ''invalid key'' else None) \<rparr>"

definition all_rejected_env :: environment where
  "all_rejected_env = gemini_down_env\<lparr> construct := (\<lambda>a. Some ''invalid key'') \<rparr>"

section \<open>How operations and passes extend the trace\<close>

lemma op_effectE:
  assumes "op_effect l s s' r"
  obtains es h where "s' = s\<lparr>interaction_history := h, events := events s @ es\<rparr>"
    and "list_all is_call es"
    and "\<forall>b q. CallGenerate b q \<in> set es \<longrightarrow> l = Some b"
    and "(\<exists>v. r = Inr v) \<longrightarrow> (\<exists>b q. CallGenerate b q \<in> set es)"
  using assms unfolding op_effect_def by (elim exE conjE) (rule that)

lemma op_effect_raise: "op_effect l s s (Inl e)"
  by (rule op_effectI[where h="interaction_history s" and es="[]"]) simp_all

lemma emit_fields [simp]:
  "llms (emit ev s) = llms s" "primary_llm (emit ev s) = primary_llm s"
  "code_generator_llm (emit ev s) = code_generator_llm s"
  "code_reviewer_llm (emit ev s) = code_reviewer_llm s"
  "system_architect_llm (emit ev s) = system_architect_llm s"
  "github_mcp_llm (emit ev s) = github_mcp_llm s"
  "github_authenticated (emit ev s) = github_authenticated s"
  "self_evolving_llm (emit ev s) = self_evolving_llm s"
  "interaction_history (emit ev s) = interaction_history s"
  "events (emit ev s) = events s @ [ev]"
  by (simp_all add: emit_def)

lemma agent_call_effect:
  assumes "agent_call env s l req res = (s', r)"
  shows "op_effect l s s' r"
proof (cases l)
  case None
  with assms have "s' = s" "r = Inl (AttributeError ''generate'')"
    by (simp_all add: agent_call_def agent_generate_def)
  then show ?thesis by (simp add: op_effect_raise)
next
  case (Some a)
  with assms have s': "s' = emit (CallGenerate a req) s"
    by (simp add: agent_call_def agent_generate_def split: sum.splits)
  show ?thesis
    by (rule op_effectI[where h="interaction_history s" and es="[CallGenerate a req]"])
       (simp_all add: s' emit_def Some)
qed

lemma op_effect_after_emit:
  assumes "op_effect l (emit ev s) s' r" "is_call ev" "\<forall>b q. ev \<noteq> CallGenerate b q"
  shows "op_effect l s s' r"
proof -
  from assms(1) obtain es h where
    s': "s' = (emit ev s)\<lparr>interaction_history := h, events := events (emit ev s) @ es\<rparr>"
    and c: "list_all is_call es"
    and g: "\<forall>b q. CallGenerate b q \<in> set es \<longrightarrow> l = Some b"
    and v: "(\<exists>v. r = Inr v) \<longrightarrow> (\<exists>b q. CallGenerate b q \<in> set es)"
    by (rule op_effectE)
  show ?thesis
  proof (rule op_effectI[where h=h and es="ev # es"])
    show "s' = s\<lparr>interaction_history := h, events := events s @ ev # es\<rparr>"
      using s' by (simp add: emit_def)
    show "list_all is_call (ev # es)" using c assms(2) by simp
    show "\<forall>b q. CallGenerate b q \<in> set (ev # es) \<longrightarrow> l = Some b"
      using g assms(3) by (metis set_ConsD)
    show "(\<exists>v. r = Inr v) \<longrightarrow> (\<exists>b q. CallGenerate b q \<in> set (ev # es))"
      using v by (metis list.set_intros(2))
  qed
qed

lemma op_effect_result:
  assumes "op_effect l s s' r" "(\<exists>v. r' = Inr v) \<longrightarrow> (\<exists>v. r = Inr v)"
  shows "op_effect l s s' r'"
proof -
  from assms(1) obtain es h where
    s': "s' = s\<lparr>interaction_history := h, events := events s @ es\<rparr>"
    and c: "list_all is_call es"
    and g: "\<forall>b q. CallGenerate b q \<in> set es \<longrightarrow> l = Some b"
    and v: "(\<exists>v. r = Inr v) \<longrightarrow> (\<exists>b q. CallGenerate b q \<in> set es)"
    by (rule op_effectE)
  from v assms(2) have "(\<exists>v. r' = Inr v) \<longrightarrow> (\<exists>b q. CallGenerate b q \<in> set es)" by simp
  with s' c g show ?thesis by (rule op_effectI)
qed

lemma generate_code_effect:
  assumes "generate_code T env s p l c t m = (s', r)"
  shows "op_effect (code_generator_llm s) s s' r"
proof (cases "format_template ''CODE_GENERATION_TEMPLATE'' (CODE_GENERATION_TEMPLATE T)
             [(''language'', l), (''context'', py_or c (PStr ''No additional context provided''))]")
  case (Inl e)
  with assms have "s' = s" "r = Inl e" by (simp_all add: generate_code_def)
  then show ?thesis by (simp add: op_effect_raise)
next
  case (Inr sp)
  with assms obtain q f where "agent_call env s (code_generator_llm s) q f = (s', r)"
    by (simp add: generate_code_def)
  then show ?thesis by (rule agent_call_effect)
qed

lemma review_code_effect:
  assumes "review_code T env s p l c t m = (s', r)"
  shows "op_effect (code_reviewer_llm s) s s' r"
proof (cases "format_template ''CODE_REVIEW_TEMPLATE'' (CODE_REVIEW_TEMPLATE T)
             [(''language'', l), (''file_path'', py_or c (PStr ''Unknown file''))]")
  case (Inl e)
  with assms have "s' = s" "r = Inl e" by (simp_all add: review_code_def)
  then show ?thesis by (simp add: op_effect_raise)
next
  case (Inr sp)
  with assms obtain q f where "agent_call env s (code_reviewer_llm s) q f = (s', r)"
    by (simp add: review_code_def)
  then show ?thesis by (rule agent_call_effect)
qed

lemma quick_check_effect:
  assumes "quick_check env s p l c = (s', r)"
  shows "op_effect (code_reviewer_llm s) s s' r"
proof (cases "check_prompts_get c")
  case (Inl e)
  with assms have "s' = s" "r = Inl e" by (simp_all add: quick_check_def)
  then show ?thesis by (simp add: op_effect_raise)
next
  case (Inr sp)
  with assms obtain q f where "agent_call env s (code_reviewer_llm s) q f = (s', r)"
    by (simp add: quick_check_def)
  then show ?thesis by (rule agent_call_effect)
qed

lemma design_architecture_effect:
  assumes "design_architecture T env s p l c t m = (s', r)"
  shows "op_effect (system_architect_llm s) s s' r"
proof (cases "format_template ''SYSTEM_ARCHITECT_TEMPLATE'' (SYSTEM_ARCHITECT_TEMPLATE T)
             [(''requirements'', p),
              (''current_architecture'',
                 py_or l (PStr ''New project - no existing architecture''))]")
  case (Inl e)
  with assms have "s' = s" "r = Inl e" by (simp_all add: design_architecture_def)
  then show ?thesis by (simp add: op_effect_raise)
next
  case (Inr sp)
  with assms obtain q f where "agent_call env s (system_architect_llm s) q f = (s', r)"
    by (simp add: design_architecture_def)
  then show ?thesis by (rule agent_call_effect)
qed

lemma suggest_patterns_effect:
  "suggest_patterns env s p l c = (s', r) \<Longrightarrow> op_effect (system_architect_llm s) s s' r"
  unfolding suggest_patterns_def by (rule agent_call_effect)

lemma optimize_architecture_effect:
  "optimize_architecture env s p l c = (s', r) \<Longrightarrow> op_effect (system_architect_llm s) s s' r"
  unfolding optimize_architecture_def by (rule agent_call_effect)

lemma suggest_pr_description_effect:
  "suggest_pr_description env s p l c = (s', r) \<Longrightarrow> op_effect (github_mcp_llm s) s s' r"
  unfolding suggest_pr_description_def by (rule agent_call_effect)

lemma op_effect_emit_raise:
  "is_call ev \<Longrightarrow> \<forall>b q. ev \<noteq> CallGenerate b q \<Longrightarrow> op_effect l s (emit ev s) (Inl e)"
  by (rule op_effect_after_emit[OF op_effect_raise])

lemma analyze_repository_effect:
  assumes "analyze_repository T env s u a t = (s', r)"
  shows "op_effect (github_mcp_llm s) s s' r"
proof -
  let ?s1 = "emit (CallGithub ''get_repository_info'') s"
  let ?s2 = "emit (CallGithub ''get_languages'') ?s1"
  have e1: "op_effect (github_mcp_llm s) s ?s1 (Inl e)" for e :: error
    by (rule op_effect_emit_raise) simp_all
  have e2: "op_effect (github_mcp_llm s) s ?s2 (Inl e)" for e :: error
    by (rule op_effect_after_emit[OF op_effect_emit_raise]) simp_all
  have e3: "op_effect (github_mcp_llm s) s s'' r''"
    if "agent_call env ?s2 (github_mcp_llm ?s2) q f = (s'', r'')" for q f s'' and r'' :: "error + kwargs"
  proof -
    have "op_effect (github_mcp_llm s) ?s2 s'' r''" using agent_call_effect[OF that] by simp
    then have "op_effect (github_mcp_llm s) ?s1 s'' r''"
      by (rule op_effect_after_emit) simp_all
    then show ?thesis by (rule op_effect_after_emit) simp_all
  qed
  show ?thesis
  proof (cases "github_get_repository_info env (length (events s)) u")
    case (Inl e)
    with assms have "s' = ?s1" "r = Inl e" by (simp_all add: analyze_repository_def Let_def)
    then show ?thesis by (simp only: e1)
  next
    case info: (Inr repo_info)
    show ?thesis
    proof (cases "github_get_languages env (length (events ?s1)) u")
      case (Inl e)
      with assms info have "s' = ?s2" "r = Inl e"
        by (simp_all add: analyze_repository_def Let_def)
      then show ?thesis by (simp only: e2)
    next
      case langs: (Inr languages)
      show ?thesis
      proof (cases "format_template ''GITHUB_MCP_TEMPLATE'' (GITHUB_MCP_TEMPLATE T)
                       [(''repo_context'', PList [PDict repo_info, PList (map (PStr \<circ> fst) languages)]),
                        (''operation'', a)]")
        case (Inl e)
        with assms info langs have "s' = ?s2" "r = Inl e"
          by (simp_all add: analyze_repository_def Let_def)
        then show ?thesis by (simp only: e2)
      next
        case (Inr sp)
        with assms info langs obtain q f where
          "agent_call env ?s2 (github_mcp_llm ?s2) q f = (s', r)"
          by (simp add: analyze_repository_def Let_def)
        then show ?thesis by (rule e3)
      qed
    qed
  qed
qed

lemma code_search_assistant_effect:
  assumes "code_search_assistant env s sq u t = (s', r)"
  shows "op_effect (github_mcp_llm s) s s' r"
proof (cases "github_authenticated s")
  case True
  let ?s1 = "emit (CallGithub ''search_code'') s"
  from assms True obtain rq f where "agent_call env ?s1 (github_mcp_llm ?s1) rq f = (s', r)"
    by (simp add: code_search_assistant_def Let_def)
  then have "op_effect (github_mcp_llm ?s1) ?s1 s' r" by (rule agent_call_effect)
  then have "op_effect (github_mcp_llm s) ?s1 s' r" by simp
  then show ?thesis by (rule op_effect_after_emit) simp_all
next
  case False
  with assms obtain rq f where "agent_call env s (github_mcp_llm s) rq f = (s', r)"
    by (simp add: code_search_assistant_def Let_def)
  then show ?thesis by (rule agent_call_effect)
qed

lemma learn_from_feedback_effect:
  assumes "learn_from_feedback T env s p f out t = (s', r)"
  shows "op_effect (self_evolving_llm s) s s' r"
proof (cases "format_template ''SELF_EVOLVING_TEMPLATE'' (SELF_EVOLVING_TEMPLATE T)
             [(''previous_interaction'', p), (''feedback'', f), (''outcome'', out)]")
  case (Inl e)
  with assms have "s' = s" "r = Inl e" by (simp_all add: learn_from_feedback_def)
  then show ?thesis by (simp add: op_effect_raise)
next
  case fmt: (Inr sp)
  show ?thesis
  proof (cases "self_evolving_llm s")
    case None
    with assms fmt have "s' = s" "r = Inl (AttributeError ''generate'')"
      by (simp_all add: learn_from_feedback_def agent_generate_def)
    then show ?thesis by (simp add: op_effect_raise)
  next
    case (Some a)
    let ?q = "\<lparr> req_system = sp, req_user = Prompt ''learn_from_feedback.user'' [],
                req_temperature = t, req_max_tokens = PInt 2048 \<rparr>"
    show ?thesis
    proof (cases "llm_generate env a (length (events s)) ?q")
      case (Inl e)
      with assms fmt Some have s': "s' = emit (CallGenerate a ?q) s" and r: "r = Inl e"
        by (simp_all add: learn_from_feedback_def agent_generate_def Let_def)
      show ?thesis
        by (rule op_effectI[where h="interaction_history s" and es="[CallGenerate a ?q]"])
           (simp_all add: s' r emit_def Some)
    next
      case (Inr resp)
      let ?l = "\<lparr> timestamp = now_isoformat env (length (events (emit (CallGenerate a ?q) s))),
                   analysis = resp_content resp, previous_interaction = p,
                   feedback = f, outcome = out, model_used = resp_model resp \<rparr>"
      from Inr assms fmt Some have
        s': "s' = (emit CallNow (emit (CallGenerate a ?q) s))
                \<lparr>interaction_history := interaction_history s @ [?l]\<rparr>" and r: "r = Inr ?l"
        by (simp_all add: learn_from_feedback_def agent_generate_def Let_def)
      show ?thesis
        by (rule op_effectI[where h="interaction_history s @ [?l]"
                              and es="[CallGenerate a ?q, CallNow]"])
           (simp_all add: s' r emit_def Some)
    qed
  qed
qed

lemma adapt_strategy_effect:
  assumes "adapt_strategy env s tt c t = (s', r)"
  shows "op_effect (self_evolving_llm s) s s' r"
proof (cases "relevant_history tt (interaction_history s)")
  case (Inl e)
  with assms have "s' = s" "r = Inl e" by (simp_all add: adapt_strategy_def)
  then show ?thesis by (simp add: op_effect_raise)
next
  case (Inr rel)
  let ?q = "\<lparr> req_system = adapt_system_prompt tt rel, req_user = adapt_user_prompt tt c,
              req_temperature = t, req_max_tokens = PInt 2048 \<rparr>"
  let ?f = "\<lambda>resp. [(''adapted_strategy'', PStr (resp_content resp)),
                            (''task_type'', PStr tt),
                            (''based_on_interactions'', PInt (int (length rel))),
                            (''model_used'', PStr (resp_model resp))]"
  from assms Inr have "agent_call env s (self_evolving_llm s) ?q ?f = (s', r)"
    by (simp add: adapt_strategy_def agent_call_def Let_def split: prod.splits sum.splits)
  then show ?thesis by (rule agent_call_effect)
qed

lemma op_effect_trace:
  assumes "op_effect l s s' r" shows "trace_effect l s s' r"
proof -
  from assms obtain es h where
    s': "s' = s\<lparr>interaction_history := h, events := events s @ es\<rparr>"
    and c: "list_all is_call es"
    and g: "\<forall>b q. CallGenerate b q \<in> set es \<longrightarrow> l = Some b"
    and v: "(\<exists>v. r = Inr v) \<longrightarrow> (\<exists>b q. CallGenerate b q \<in> set es)"
    by (rule op_effectE)
  have "events s' = events s @ es" using s' by simp
  with c g v have "\<exists>es. events s' = events s @ es
            \<and> list_all is_call es
            \<and> (\<forall>b q. CallGenerate b q \<in> set es \<longrightarrow> l = Some b)
            \<and> ((\<exists>v. r = Inr v) \<longrightarrow> (\<exists>b q. CallGenerate b q \<in> set es))"
    by (intro exI[of _ es] conjI)
  moreover have "llms s' = llms s" "primary_llm s' = primary_llm s" using s' by simp_all
  ultimately show ?thesis unfolding trace_effect_def by (intro conjI)
qed

lemma trace_effectE:
  assumes "trace_effect l s s' r"
  obtains es where "llms s' = llms s" and "primary_llm s' = primary_llm s"
    and "events s' = events s @ es" and "list_all is_call es"
    and "\<forall>b q. CallGenerate b q \<in> set es \<longrightarrow> l = Some b"
    and "(\<exists>v. r = Inr v) \<longrightarrow> (\<exists>b q. CallGenerate b q \<in> set es)"
  using assms unfolding trace_effect_def by (elim exE conjE) (rule that)

lemma trace_effect_cong:
  assumes "trace_effect l s s' r"
    and "llms t = llms s" "primary_llm t = primary_llm s" "events t = events s"
    and "llms t' = llms s'" "primary_llm t' = primary_llm s'" "events t' = events s'"
  shows "trace_effect l t t' r"
  using assms unfolding trace_effect_def by simp

lemma trace_effect_raise: "trace_effect l s s (Inl e)"
  by (rule op_effect_trace[OF op_effect_raise])

lemma call_generate_code_effect:
  "call_generate_code T env s kw = (s', r) \<Longrightarrow> op_effect (code_generator_llm s) s s' r"
  by (auto simp: call_generate_code_def op_effect_raise split: sum.splits
           intro: generate_code_effect)

lemma call_review_code_effect:
  "call_review_code T env s kw = (s', r) \<Longrightarrow> op_effect (code_reviewer_llm s) s s' r"
  by (auto simp: call_review_code_def op_effect_raise split: sum.splits
           intro: review_code_effect)

lemma call_quick_check_effect:
  "call_quick_check env s kw = (s', r) \<Longrightarrow> op_effect (code_reviewer_llm s) s s' r"
  by (auto simp: call_quick_check_def op_effect_raise split: sum.splits
           intro: quick_check_effect)

lemma call_design_architecture_effect:
  "call_design_architecture T env s kw = (s', r) \<Longrightarrow> op_effect (system_architect_llm s) s s' r"
  by (auto simp: call_design_architecture_def op_effect_raise split: sum.splits
           intro: design_architecture_effect)

lemma call_suggest_patterns_effect:
  "call_suggest_patterns env s kw = (s', r) \<Longrightarrow> op_effect (system_architect_llm s) s s' r"
  by (auto simp: call_suggest_patterns_def op_effect_raise split: sum.splits
           intro: suggest_patterns_effect)

lemma call_optimize_architecture_effect:
  "call_optimize_architecture env s kw = (s', r) \<Longrightarrow> op_effect (system_architect_llm s) s s' r"
  by (auto simp: call_optimize_architecture_def op_effect_raise split: sum.splits
           intro: optimize_architecture_effect)

lemma call_analyze_repository_effect:
  "call_analyze_repository T env s kw = (s', r) \<Longrightarrow> op_effect (github_mcp_llm s) s s' r"
  by (auto simp: call_analyze_repository_def op_effect_raise split: sum.splits
           intro: analyze_repository_effect)

lemma call_suggest_pr_description_effect:
  "call_suggest_pr_description env s kw = (s', r) \<Longrightarrow> op_effect (github_mcp_llm s) s s' r"
  by (auto simp: call_suggest_pr_description_def op_effect_raise split: sum.splits
           intro: suggest_pr_description_effect)

lemma call_code_search_assistant_effect:
  "call_code_search_assistant env s kw = (s', r) \<Longrightarrow> op_effect (github_mcp_llm s) s s' r"
  by (auto simp: call_code_search_assistant_def op_effect_raise split: sum.splits
           intro: code_search_assistant_effect)

lemma call_learn_from_feedback_effect:
  assumes "call_learn_from_feedback T env s kw = (s', r)"
  shows "op_effect (self_evolving_llm s) s s' r"
proof (cases "bind_kwargs [''previous_interaction'', ''feedback'', ''outcome'']
             [(''temperature'', PDec 4 1)] kw")
  case (Inl e)
  with assms have "s' = s" "r = Inl e" by (simp_all add: call_learn_from_feedback_def)
  then show ?thesis by (simp add: op_effect_raise)
next
  case (Inr a)
  obtain s1 r1 where l: "learn_from_feedback T env s (a ''previous_interaction'') (a ''feedback'')
                  (a ''outcome'') (a ''temperature'') = (s1, r1)"
    by (rule prod.exhaust)
  from assms Inr l have "s' = s1" "(\<exists>v. r = Inr v) \<longrightarrow> (\<exists>v. r1 = Inr v)"
    by (auto simp: call_learn_from_feedback_def split: sum.splits)
  with learn_from_feedback_effect[OF l] show ?thesis
    by (simp add: op_effect_result)
qed

lemma call_adapt_strategy_effect:
  "call_adapt_strategy env s kw = (s', r) \<Longrightarrow> op_effect (self_evolving_llm s) s s' r"
  by (auto simp: call_adapt_strategy_def op_effect_raise split: sum.splits pyval.splits
           intro: adapt_strategy_effect)

lemma dispatch_swap_generate:
  assumes "dispatch T env s ''generate'' m tgt kw = (s', r)"
  shows "trace_effect (bound_llm s ''generate'' m tgt) s s' r"
proof -
  let ?s1 = "if str_given m then s\<lparr>code_generator_llm := Some tgt\<rparr> else s"
  obtain s2 r2 where c: "call_generate_code T env ?s1 kw = (s2, r2)" by (rule prod.exhaust)
  have "code_generator_llm ?s1 = bound_llm s ''generate'' m tgt" by (simp add: bound_llm_def)
  with call_generate_code_effect[OF c] have "op_effect (bound_llm s ''generate'' m tgt) ?s1 s2 r2"
    by simp
  then have t: "trace_effect (bound_llm s ''generate'' m tgt) ?s1 s2 r2" by (rule op_effect_trace)
  from assms c have "r = r2 \<and> llms s' = llms s2 \<and> primary_llm s' = primary_llm s2
      \<and> events s' = events s2"
    by (auto simp: dispatch_def Let_def split: sum.splits option.splits if_splits)
  then show ?thesis using trace_effect_cong[OF t, of s s'] by simp
qed

lemma dispatch_swap_review:
  assumes "dispatch T env s ''review'' m tgt kw = (s', r)"
  shows "trace_effect (bound_llm s ''review'' m tgt) s s' r"
proof -
  let ?s1 = "if str_given m then s\<lparr>code_reviewer_llm := Some tgt\<rparr> else s"
  obtain s2 r2 where c: "call_review_code T env ?s1 kw = (s2, r2)" by (rule prod.exhaust)
  have "code_reviewer_llm ?s1 = bound_llm s ''review'' m tgt" by (simp add: bound_llm_def)
  with call_review_code_effect[OF c] have "op_effect (bound_llm s ''review'' m tgt) ?s1 s2 r2"
    by simp
  then have t: "trace_effect (bound_llm s ''review'' m tgt) ?s1 s2 r2" by (rule op_effect_trace)
  from assms c have "r = r2 \<and> llms s' = llms s2 \<and> primary_llm s' = primary_llm s2
      \<and> events s' = events s2"
    by (auto simp: dispatch_def Let_def split: sum.splits option.splits if_splits)
  then show ?thesis using trace_effect_cong[OF t, of s s'] by simp
qed

lemma dispatch_swap_architecture:
  assumes "dispatch T env s ''architecture'' m tgt kw = (s', r)"
  shows "trace_effect (bound_llm s ''architecture'' m tgt) s s' r"
proof -
  let ?s1 = "if str_given m then s\<lparr>system_architect_llm := Some tgt\<rparr> else s"
  obtain s2 r2 where c: "call_design_architecture T env ?s1 kw = (s2, r2)" by (rule prod.exhaust)
  have "system_architect_llm ?s1 = bound_llm s ''architecture'' m tgt" by (simp add: bound_llm_def)
  with call_design_architecture_effect[OF c]
  have "op_effect (bound_llm s ''architecture'' m tgt) ?s1 s2 r2" by simp
  then have t: "trace_effect (bound_llm s ''architecture'' m tgt) ?s1 s2 r2" by (rule op_effect_trace)
  from assms c have "r = r2 \<and> llms s' = llms s2 \<and> primary_llm s' = primary_llm s2
      \<and> events s' = events s2"
    by (auto simp: dispatch_def Let_def split: sum.splits option.splits if_splits)
  then show ?thesis using trace_effect_cong[OF t, of s s'] by simp
qed

lemma dispatch_unknown:
  "task_type \<notin> set task_types \<Longrightarrow>
   dispatch T env s task_type m tgt kw = (s, Inl (ValueError (''Unknown task type: '' @ task_type)))"
  by (simp add: dispatch_def task_types_def)

lemma dispatch_effect:
  assumes "dispatch T env s task_type m tgt kw = (s', r)"
  shows "trace_effect (bound_llm s task_type m tgt) s s' r"
proof (cases "task_type \<in> set task_types")
  case False
  with assms dispatch_unknown[OF False, of T env s m tgt kw]
  have "s' = s" "r = Inl (ValueError (''Unknown task type: '' @ task_type))"
    by auto
  then show ?thesis by (simp only: trace_effect_raise)
next
  case True
  then consider "task_type = ''generate''" | "task_type = ''review''"
    | "task_type = ''quick-check''" | "task_type = ''architecture''"
    | "task_type = ''suggest-patterns''" | "task_type = ''optimize-architecture''"
    | "task_type = ''analyze-repo''" | "task_type = ''pr-description''"
    | "task_type = ''code-search''" | "task_type = ''learn''" | "task_type = ''adapt''"
    unfolding task_types_def by fastforce
  then show ?thesis
  proof cases
    case 1 with assms show ?thesis by (simp add: dispatch_swap_generate)
  next
    case 2 with assms show ?thesis by (simp add: dispatch_swap_review)
  next
    case 3
    with assms have "call_quick_check env s kw = (s', r)" by (simp add: dispatch_def)
    from op_effect_trace[OF call_quick_check_effect[OF this]] 3
    show ?thesis by (simp add: bound_llm_def)
  next
    case 4 with assms show ?thesis by (simp add: dispatch_swap_architecture)
  next
    case 5
    with assms have "call_suggest_patterns env s kw = (s', r)" by (simp add: dispatch_def)
    from op_effect_trace[OF call_suggest_patterns_effect[OF this]] 5
    show ?thesis by (simp add: bound_llm_def)
  next
    case 6
    with assms have "call_optimize_architecture env s kw = (s', r)" by (simp add: dispatch_def)
    from op_effect_trace[OF call_optimize_architecture_effect[OF this]] 6
    show ?thesis by (simp add: bound_llm_def)
  next
    case 7
    with assms have "call_analyze_repository T env s kw = (s', r)" by (simp add: dispatch_def)
    from op_effect_trace[OF call_analyze_repository_effect[OF this]] 7
    show ?thesis by (simp add: bound_llm_def)
  next
    case 8
    with assms have "call_suggest_pr_description env s kw = (s', r)" by (simp add: dispatch_def)
    from op_effect_trace[OF call_suggest_pr_description_effect[OF this]] 8
    show ?thesis by (simp add: bound_llm_def)
  next
    case 9
    with assms have "call_code_search_assistant env s kw = (s', r)" by (simp add: dispatch_def)
    from op_effect_trace[OF call_code_search_assistant_effect[OF this]] 9
    show ?thesis by (simp add: bound_llm_def)
  next
    case 10
    with assms have "call_learn_from_feedback T env s kw = (s', r)" by (simp add: dispatch_def)
    from op_effect_trace[OF call_learn_from_feedback_effect[OF this]] 10
    show ?thesis by (simp add: bound_llm_def)
  next
    case 11
    with assms have "call_adapt_strategy env s kw = (s', r)" by (simp add: dispatch_def)
    from op_effect_trace[OF call_adapt_strategy_effect[OF this]] 11
    show ?thesis by (simp add: bound_llm_def)
  qed
qed

lemma route_request_openai:
  "route_request cfg T env s task_type (Some ''openai'') kw =
     route_attempt T env s task_type (Some ''openai'') kw"
  by (subst route_request.simps)
     (simp add: route_attempt_def Let_def split: prod.splits sum.splits)

lemma route_attempt_llms:
  assumes "route_attempt T env s task_type model kw = (s', r)"
  shows "llms s' = llms s"
proof -
  let ?s0 = "emit (LogRouting task_type model) s"
  obtain s1 r1 where d: "dispatch T env ?s0 task_type model (get_llm ?s0 model) kw = (s1, r1)"
    by (rule prod.exhaust)
  from dispatch_effect[OF d] have "llms s1 = llms s" by (simp add: trace_effect_def)
  moreover from assms d have "llms s' = llms s1"
    by (auto simp: route_attempt_def Let_def split: sum.splits)
  ultimately show ?thesis by simp
qed

lemma route_request_unfold:
  "route_request cfg T env s task_type model kw =
     (case route_attempt T env s task_type model kw of
        (s2, Inr result) \<Rightarrow> (s2, Inr result)
      | (s2, Inl e) \<Rightarrow>
          if fallback_eligible cfg s model
          then route_attempt T env (emit LogFallback s2) task_type (Some ''openai'') kw
          else (s2, Inl e))"
proof -
  obtain s2 r where a: "route_attempt T env s task_type model kw = (s2, r)" by (rule prod.exhaust)
  have l: "llms s2 = llms s" by (rule route_attempt_llms[OF a])
  show ?thesis
    using a l
    by (subst route_request.simps)
       (auto simp: route_attempt_def Let_def fallback_eligible_def route_request_openai
             split: prod.splits sum.splits)
qed

lemma example_state_init:
  "AgentOrchestrator_init example_settings example_env = Inr example_state"
  by (simp add: AgentOrchestrator_init_def init_llms_def register_def str_given_def
        example_settings_def example_env_def example_state_def)

lemma openai_state_init:
  "AgentOrchestrator_init openai_settings example_env = Inr openai_state"
  by (simp add: AgentOrchestrator_init_def init_llms_def register_def str_given_def
        openai_settings_def example_env_def openai_state_def)

lemmas eval_defs =
  route_attempt_def dispatch_def call_generate_code_def generate_code_def bind_kwargs_def
  format_template_def agent_call_def agent_generate_def emit_def get_llm_def str_given_def
  py_or_def prompt_templates_def fallback_eligible_def Let_def new_events_def
  call_quick_check_def quick_check_def

lemma bound_llm_emit [simp]: "bound_llm (emit ev s) t m a = bound_llm s t m a"
  by (simp add: bound_llm_def)

lemma get_llm_emit [simp]: "get_llm (emit ev s) m = get_llm s m"
  by (simp add: get_llm_def split: option.splits)

lemma route_attempt_events:
  assumes "route_attempt T env s t m kw = (s', r)"
  obtains es where "list_all is_call es"
    and "\<forall>b q. CallGenerate b q \<in> set es \<longrightarrow> bound_llm s t m (get_llm s m) = Some b"
    and "(\<exists>v. r = Inr v) \<longrightarrow> (\<exists>b q. CallGenerate b q \<in> set es)"
    and "events s' = events s @ LogRouting t m # es @
           (case r of Inl e \<Rightarrow> [LogErrorRouting t e] | Inr v \<Rightarrow> [])"
proof -
  let ?s0 = "emit (LogRouting t m) s"
  obtain s1 r1 where d: "dispatch T env ?s0 t m (get_llm ?s0 m) kw = (s1, r1)"
    by (rule prod.exhaust)
  from dispatch_effect[OF d] have "trace_effect (bound_llm s t m (get_llm s m)) ?s0 s1 r1"
    by simp
  then obtain es where "llms s1 = llms ?s0" and "primary_llm s1 = primary_llm ?s0"
    and e: "events s1 = events ?s0 @ es" and c: "list_all is_call es"
    and g: "\<forall>b q. CallGenerate b q \<in> set es \<longrightarrow> bound_llm s t m (get_llm s m) = Some b"
    and v: "(\<exists>v. r1 = Inr v) \<longrightarrow> (\<exists>b q. CallGenerate b q \<in> set es)"
    by (rule trace_effectE)
  from assms d have r: "r = r1"
    and s': "events s' = events s1 @ (case r1 of Inl e \<Rightarrow> [LogErrorRouting t e] | Inr v \<Rightarrow> [])"
    by (auto simp: route_attempt_def Let_def split: sum.splits)
  have "events s' = events s @ LogRouting t m # es @
                 (case r of Inl e \<Rightarrow> [LogErrorRouting t e] | Inr v \<Rightarrow> [])"
    using s' e r by simp
  with c g v[folded r] show thesis by (rule that)
qed

lemma route_attempt_prefix:
  assumes "route_attempt T env s t m kw = (s', r)"
  shows "events s' = events s @ new_events s s'"
proof -
  obtain es where "list_all is_call es"
    and "\<forall>b q. CallGenerate b q \<in> set es \<longrightarrow> bound_llm s t m (get_llm s m) = Some b"
    and "(\<exists>v. r = Inr v) \<longrightarrow> (\<exists>b q. CallGenerate b q \<in> set es)"
    and e: "events s' = events s @ LogRouting t m # es @
                 (case r of Inl e \<Rightarrow> [LogErrorRouting t e] | Inr v \<Rightarrow> [])"
    by (rule route_attempt_events[OF assms])
  show ?thesis by (simp add: e new_events_def)
qed

lemma filter_calls:
  "list_all is_call es \<Longrightarrow> filter is_routing es = [] \<and> filter is_fallback es = []"
  by (induction es) (auto elim: is_call.elims)

lemma route_attempt_new_events:
  assumes "route_attempt T env s t m kw = (s', r)"
  shows "filter is_routing (new_events s s') = [LogRouting t m]"
    and "filter is_fallback (new_events s s') = []"
    and "length (events s) \<le> length (events s')"
proof -
  obtain es where c: "list_all is_call es"
    and "\<forall>b q. CallGenerate b q \<in> set es \<longrightarrow> bound_llm s t m (get_llm s m) = Some b"
    and "(\<exists>v. r = Inr v) \<longrightarrow> (\<exists>b q. CallGenerate b q \<in> set es)"
    and e: "events s' = events s @ LogRouting t m # es @
                 (case r of Inl e \<Rightarrow> [LogErrorRouting t e] | Inr v \<Rightarrow> [])"
    by (rule route_attempt_events[OF assms])
  from e have n: "new_events s s' = LogRouting t m # es @
                 (case r of Inl e \<Rightarrow> [LogErrorRouting t e] | Inr v \<Rightarrow> [])"
    by (simp add: new_events_def)
  show "filter is_routing (new_events s s') = [LogRouting t m]"
    using filter_calls[OF c] by (simp add: n split: sum.splits)
  show "filter is_fallback (new_events s s') = []"
    using filter_calls[OF c] by (simp add: n split: sum.splits)
  show "length (events s) \<le> length (events s')" using e by simp
qed

lemma new_events_trans:
  assumes "length (events s) \<le> length (events s1)"
    and "events s2 = events s1 @ es"
  shows "new_events s s2 = new_events s s1 @ es"
  using assms by (simp add: new_events_def)

lemma route_request_retry_events:
  assumes a1: "route_attempt T env s t m kw = (s2, Inl e)"
    and el: "fallback_eligible cfg s m"
    and a2: "route_attempt T env (emit LogFallback s2) t (Some ''openai'') kw = (s3, r)"
  shows "route_request cfg T env s t m kw = (s3, r)"
    and "filter is_routing (new_events s s3) = [LogRouting t m, LogRouting t (Some ''openai'')]"
    and "filter is_fallback (new_events s s3) = [LogFallback]"
proof -
  show "route_request cfg T env s t m kw = (s3, r)"
    by (simp add: route_request_unfold a1 el a2)
  let ?sf = "emit LogFallback s2"
  have "events s3 = events ?sf @ new_events ?sf s3" by (rule route_attempt_prefix[OF a2])
  then have "events s3 = events s2 @ (LogFallback # new_events ?sf s3)" by simp
  with route_attempt_new_events(3)[OF a1]
  have "new_events s s3 = new_events s s2 @ LogFallback # new_events ?sf s3"
    by (rule new_events_trans)
  then show "filter is_routing (new_events s s3) = [LogRouting t m, LogRouting t (Some ''openai'')]"
    and "filter is_fallback (new_events s s3) = [LogFallback]"
    using route_attempt_new_events(1,2)[OF a1] route_attempt_new_events(1,2)[OF a2]
    by simp_all
qed

lemma route_request_no_retry:
  assumes a1: "route_attempt T env s t m kw = (s2, r)"
    and el: "(\<exists>v. r = Inr v) \<or> \<not> fallback_eligible cfg s m"
  shows "route_request cfg T env s t m kw = (s2, r)"
  using a1 el by (auto simp: route_request_unfold split: sum.splits)

lemma route_attempt_unknown:
  assumes "task_type \<notin> set task_types"
  shows "route_attempt T env s task_type model kw =
     (emit (LogErrorRouting task_type (ValueError (''Unknown task type: '' @ task_type)))
        (emit (LogRouting task_type model) s),
      Inl (ValueError (''Unknown task type: '' @ task_type)))"
  by (simp add: route_attempt_def dispatch_unknown[OF assms] Let_def)









lemma matching_history_filter:
  "\<forall>h\<in>set history. \<exists>d. previous_interaction h = PDict d \<Longrightarrow>
   matching_history t history = Inr (filter (\<lambda>h. stored_task_type h = Inr (PStr t)) history)"
  by (induction history) (auto split: pyval.splits option.splits)

lemma relevant_history_filter:
  "\<forall>h\<in>set history. \<exists>d. previous_interaction h = PDict d \<Longrightarrow>
   relevant_history t history =
     Inr (last5 (filter (\<lambda>h. stored_task_type h = Inr (PStr t)) history))"
  by (simp add: relevant_history_def matching_history_filter)

lemma adapt_strategy_events:
  assumes "relevant_history t (interaction_history s) = Inr rel"
    and "self_evolving_llm s = Some a"
  shows "new_events s (fst (adapt_strategy env s t c temp)) =
           [CallGenerate a \<lparr> req_system = adapt_system_prompt t rel,
                              req_user = adapt_user_prompt t c,
                              req_temperature = temp, req_max_tokens = PInt 2048 \<rparr>]"
  using assms
  by (simp add: adapt_strategy_def agent_generate_def new_events_def Let_def
           split: sum.splits)

lemma init_llms_constructed: "init_llms cfg env = constructed_backends cfg env"
  by (simp add: init_llms_def register_def constructed_backends_def split: option.splits)


lemma learn_from_feedback_repository_template:
  "learn_from_feedback prompt_templates env s p f out t = (s, Inl (KeyError ''context''))"
  by (simp add: learn_from_feedback_def format_template_def prompt_templates_def)

lemma design_architecture_repository_template:
  "design_architecture prompt_templates env s p l c t m = (s, Inl (KeyError ''code''))"
  by (simp add: design_architecture_def format_template_def prompt_templates_def)

lemma call_adapt_strategy_unbound:
  assumes "''task_type'' \<notin> set (map fst kw)"
  shows "\<exists>msg. call_adapt_strategy env s kw = (s, Inl (TypeError msg))"
  using assms
  by (auto simp: call_adapt_strategy_def bind_kwargs_def split: list.splits)

lemma get_llm_unknown:
  "map_of (llms s) m = None \<Longrightarrow> get_llm s (Some m) = primary_llm s"
  by (simp add: get_llm_def)

lemma full_state_init:
  "AgentOrchestrator_init full_settings gemini_down_env = Inr full_state"
  by (simp add: AgentOrchestrator_init_def init_llms_def register_def str_given_def
        full_settings_def gemini_down_env_def example_env_def full_state_def)

lemmas example_defs =
  example_state_def example_env_def example_settings_def example_response_def
  openai_state_def openai_settings_def full_state_def full_settings_def gemini_down_env_def

text \<open>
  The \<open>try\<close> of \<open>learn_from_feedback\<close>, for any templates: a call of the adapter that
  faults leaves the history as it was, a call that answers appends one entry. With the
  templates of the repository the call is never reached
  (\<open>learn_from_feedback_repository_template\<close>).
\<close>

lemma learn_from_feedback_history_cases:
  assumes "learn_from_feedback T env s p f out t = (s', r)"
  shows "(\<forall>a req. CallGenerate a req \<in> set (new_events s s') \<longrightarrow>
            (case llm_generate env a (length (events s)) req of
               Inl e \<Rightarrow> r = Inl e \<and> interaction_history s' = interaction_history s
             | Inr resp \<Rightarrow>
                 (\<exists>l. r = Inr l \<and> analysis l = resp_content resp \<and> previous_interaction l = p
                    \<and> feedback l = f \<and> outcome l = out
                    \<and> interaction_history s' = interaction_history s @ [l])))
       \<and> ((\<forall>a req. CallGenerate a req \<notin> set (new_events s s')) \<longrightarrow>
            (\<exists>e. r = Inl e) \<and> interaction_history s' = interaction_history s)"
  using assms
  by (auto simp: learn_from_feedback_def agent_generate_def emit_def Let_def new_events_def
           split: sum.splits option.splits prod.splits)

section \<open>The claims\<close>

text \<open>
  Claim C1 says that \<open>route_request\<close> leaves the agent's \<open>llm\<close> as it found it, also when
  the operation raises. The code assigns \<open>original_llm\<close> back only after the operation has
  returned. With Claude and Gemini configured, a \<open>generate\<close> request for \<open>gemini\<close> that
  the provider refuses raises and leaves the code generator bound to Gemini. With all
  three configured and OpenAI answering, the same request succeeds through the fallback
  and still leaves the code generator bound to Gemini, since the second call saved and
  restored the binding the first call had made.
\<close>

theorem route_request_leaves_generator_rebound:
  "code_generator_llm example_state = Some ClaudeSonnetClient
   \<and> snd (route_request example_settings prompt_templates example_env example_state
             ''generate'' (Some ''gemini'') [(''prompt'', PStr ''sort a list'')])
       = Inl (ProviderError ''rate limit exceeded'')
   \<and> code_generator_llm
         (fst (route_request example_settings prompt_templates example_env example_state
                 ''generate'' (Some ''gemini'') [(''prompt'', PStr ''sort a list'')]))
       = Some GeminiClient
   \<and> code_generator_llm full_state = Some ClaudeSonnetClient
   \<and> map_of
         (projr (snd (route_request full_settings prompt_templates gemini_down_env full_state
                 ''generate'' (Some ''gemini'') [(''prompt'', PStr ''sort a list'')])))
         ''model_used'' = Some (PStr ''gpt-4-turbo-preview'')
   \<and> code_generator_llm
         (fst (route_request full_settings prompt_templates gemini_down_env full_state
                 ''generate'' (Some ''gemini'') [(''prompt'', PStr ''sort a list'')]))
       = Some GeminiClient"
  by (simp add: route_request_unfold eval_defs example_defs)







text \<open>
  Claim C4 says that a backend name the registry does not have resolves to the primary
  backend in \<open>route_request\<close> and in \<open>stream_generate\<close> alike. \<open>stream_generate\<close> binds
  the generator to \<open>self.llms.get(model)\<close>, which is \<open>None\<close> for such a name: the stream
  is one error fragment, where the primary backend streams the code.
\<close>

theorem stream_generate_unknown_model_not_primary:
  "map_of (llms example_state) ''mistral'' = None
   \<and> snd (stream_generate example_settings prompt_templates example_env example_state
            (Some ''mistral'') [(''prompt'', PStr ''sort a list'')])
       = [error_fragment (AttributeError ''stream_generate'')]
   \<and> snd (stream_generate example_settings prompt_templates example_env example_state
            None [(''prompt'', PStr ''sort a list'')])
       = [''def '', ''f():'']"
  by (simp add: stream_generate_def call_stream_generate_code_def stream_generate_code_def
        bind_kwargs_def format_template_def py_or_def prompt_templates_def emit_def Let_def
        example_state_def example_env_def example_settings_def)

text \<open>
  Claim C5: for every task type and payload \<open>route_request\<close> logs at most one fallback
  and starts the route operation at most twice; when the first pass faults, fallback is
  eligible and the pass on \<open>openai\<close> faults too, the call ends in the state the second
  pass left, raising the fault of the second pass. \<open>route_request\<close> is a total function
  (its termination is proved with its definition), so it always returns.
\<close>

theorem route_request_single_retry:
  "length (filter is_fallback
       (new_events s (fst (route_request cfg T env s task_type model kw)))) \<le> 1
   \<and> length (filter is_routing
       (new_events s (fst (route_request cfg T env s task_type model kw)))) \<le> 2
   \<and> (\<forall>s2 e1 s3 e2.
         route_attempt T env s task_type model kw = (s2, Inl e1)
         \<and> fallback_eligible cfg s model
         \<and> route_attempt T env (emit LogFallback s2) task_type (Some ''openai'') kw = (s3, Inl e2)
         \<longrightarrow> route_request cfg T env s task_type model kw = (s3, Inl e2))"
proof -
  obtain s2 r where a1: "route_attempt T env s task_type model kw = (s2, r)"
    by (rule prod.exhaust)
  have counts: "length (filter is_fallback
       (new_events s (fst (route_request cfg T env s task_type model kw)))) \<le> 1
   \<and> length (filter is_routing
       (new_events s (fst (route_request cfg T env s task_type model kw)))) \<le> 2"
  proof (cases "(\<exists>e. r = Inl e) \<and> fallback_eligible cfg s model")
    case True
    then obtain e where r: "r = Inl e" and f: "fallback_eligible cfg s model" by blast
    obtain s3 r3 where a2:
      "route_attempt T env (emit LogFallback s2) task_type (Some ''openai'') kw = (s3, r3)"
      by (rule prod.exhaust)
    from route_request_retry_events[OF a1[unfolded r] f a2] show ?thesis by simp
  next
    case False
    then have "(\<exists>v. r = Inr v) \<or> \<not> fallback_eligible cfg s model"
      by (cases r) simp_all
    from route_request_no_retry[OF a1 this] route_attempt_new_events(1,2)[OF a1]
    show ?thesis by simp
  qed
  have "route_request cfg T env s task_type model kw = (s3, Inl e2)"
    if "route_attempt T env s task_type model kw = (s2', Inl e1)"
      "fallback_eligible cfg s model"
      "route_attempt T env (emit LogFallback s2') task_type (Some ''openai'') kw = (s3, Inl e2)"
    for s2' e1 s3 e2
    using route_request_retry_events(1)[OF that] .
  with counts show ?thesis by blast
qed

text \<open>
  C5 at work: OpenAI is the only backend and fails; the first pass faults, fallback is
  eligible, the second pass faults, and the call raises the provider's error after one
  fallback.
\<close>

theorem route_request_single_retry_witness:
  "snd (route_attempt prompt_templates example_env openai_state ''generate'' None
          [(''prompt'', PStr ''sort a list'')]) = Inl (ProviderError ''rate limit exceeded'')
   \<and> fallback_eligible openai_settings openai_state None
   \<and> snd (route_request openai_settings prompt_templates example_env openai_state
            ''generate'' None [(''prompt'', PStr ''sort a list'')])
       = Inl (ProviderError ''rate limit exceeded'')
   \<and> length (filter is_fallback (new_events openai_state
        (fst (route_request openai_settings prompt_templates example_env openai_state
               ''generate'' None [(''prompt'', PStr ''sort a list'')])))) \<le> 1"
  using route_request_single_retry[of openai_state openai_settings prompt_templates example_env
          "''generate''" None "[(''prompt'', PStr ''sort a list'')]"]
  by (simp add: route_request_unfold eval_defs example_defs)

text \<open>
  Claim C6: for a task type outside the eleven that \<open>route_request\<close> knows, whatever the
  payload, the model named and the fallback settings, the call raises \<open>ValueError\<close> with
  the message \<open>Unknown task type: \<close> followed by the task type, and calls no adapter.
\<close>

theorem route_request_unknown_task_type:
  assumes "task_type \<notin> set task_types"
  shows "snd (route_request cfg T env s task_type model kw) =
           Inl (ValueError (''Unknown task type: '' @ task_type))
         \<and> generate_calls (new_events s (fst (route_request cfg T env s task_type model kw))) = []"
  by (simp add: route_request_unfold route_attempt_unknown[OF assms] new_events_def)

text \<open>
  C6 at work: \<open>translate\<close> is not a task type; with fallback enabled and \<open>openai\<close>
  registered the call still raises the error for the unknown task type.
\<close>

theorem route_request_unknown_task_type_witness:
  "''translate'' \<notin> set task_types
   \<and> snd (route_request full_settings prompt_templates gemini_down_env full_state
            ''translate'' None [(''text'', PStr ''hello'')])
       = Inl (ValueError ''Unknown task type: translate'')"
proof -
  have h: "''translate'' \<notin> set task_types" by (simp add: task_types_def)
  from route_request_unknown_task_type[OF h, of full_settings prompt_templates gemini_down_env
         full_state None "[(''text'', PStr ''hello'')]"] h
  show ?thesis by simp
qed

text \<open>
  Claim C7: for every history whose entries hold a dictionary as \<open>previous_interaction\<close>
  (what \<open>learn_from_feedback\<close> is given by its signature) and every task type,
  \<open>adapt_strategy\<close> selects the entries whose stored \<open>task_type\<close> is the task type, keeps
  the last five of them (all of them when there are at most five) in their order, and
  the request it sends to the adapter is built from exactly these entries.
\<close>

theorem adapt_strategy_relevant_history:
  assumes "\<forall>h \<in> set (interaction_history s). \<exists>d. previous_interaction h = PDict d"
  shows "let matches = filter (\<lambda>h. stored_task_type h = Inr (PStr task_type))
                         (interaction_history s);
             relevant = drop (length matches - 5) matches
         in relevant_history task_type (interaction_history s) = Inr relevant
            \<and> length relevant = min 5 (length matches)
            \<and> (length matches \<le> 5 \<longrightarrow> relevant = matches)
            \<and> (\<exists>older. matches = older @ relevant)
            \<and> (\<forall>a. self_evolving_llm s = Some a \<longrightarrow>
                  new_events s (fst (adapt_strategy env s task_type v_context v_temperature)) =
                    [CallGenerate a
                       \<lparr> req_system = adapt_system_prompt task_type relevant,
                         req_user = adapt_user_prompt task_type v_context,
                         req_temperature = v_temperature, req_max_tokens = PInt 2048 \<rparr>])"
proof -
  let ?m = "filter (\<lambda>h. stored_task_type h = Inr (PStr task_type)) (interaction_history s)"
  let ?r = "drop (length ?m - 5) ?m"
  have r: "relevant_history task_type (interaction_history s) = Inr ?r"
    using relevant_history_filter[OF assms] by (simp add: last5_def)
  have l: "length ?r = min 5 (length ?m)" by simp
  have a: "length ?m \<le> 5 \<longrightarrow> ?r = ?m" by simp
  have o: "\<exists>older. ?m = older @ ?r" by (rule exI[of _ "take (length ?m - 5) ?m"]) simp
  have e: "\<forall>a. self_evolving_llm s = Some a \<longrightarrow>
                  new_events s (fst (adapt_strategy env s task_type v_context v_temperature)) =
                    [CallGenerate a
                       \<lparr> req_system = adapt_system_prompt task_type ?r,
                         req_user = adapt_user_prompt task_type v_context,
                         req_temperature = v_temperature, req_max_tokens = PInt 2048 \<rparr>]"
    using adapt_strategy_events[OF r] by blast
  show ?thesis unfolding Let_def using r l a o e by (intro conjI)
qed

text \<open>
  C7 at work: of eight entries six are reviews; the slice for \<open>review\<close> holds the last
  five of the six, oldest first.
\<close>

theorem adapt_strategy_relevant_history_witness:
  "list_all (\<lambda>h. \<exists>d. previous_interaction h = PDict d) (interaction_history learned_state)
   \<and> relevant_history ''review'' (interaction_history learned_state) =
       Inr [example_learning ''3'' ''review'', example_learning ''4'' ''review'',
            example_learning ''6'' ''review'', example_learning ''7'' ''review'',
            example_learning ''8'' ''review'']"
proof -
  have h: "\<forall>h \<in> set (interaction_history learned_state). \<exists>d. previous_interaction h = PDict d"
    by (simp add: learned_state_def example_state_def example_history_def example_learning_def)
  from adapt_strategy_relevant_history[OF h, of "''review''" example_env PNone "PDec 3 1"] h
  show ?thesis
    by (simp add: Let_def list_all_iff learned_state_def example_state_def example_history_def
          example_learning_def)
qed

text \<open>
  Claim C8: \<open>AgentOrchestrator.__init__\<close> raises exactly when none of the configured
  backends could be constructed, and then it raises the \<open>RuntimeError\<close> for no LLM
  clients; when it returns, the registry holds the backends that were constructed, in
  configuration order, and the primary backend is the registry's entry for the default
  name when there is one, else the first entry of the registry.
\<close>

theorem AgentOrchestrator_init_primary:
  "((\<exists>e. AgentOrchestrator_init cfg env = Inl e) \<longleftrightarrow> constructed_backends cfg env = [])
   \<and> (\<forall>e. AgentOrchestrator_init cfg env = Inl e \<longrightarrow>
          e = RuntimeError ''No LLM clients initialized! Please provide at least one API key.'')
   \<and> (\<forall>s. AgentOrchestrator_init cfg env = Inr s \<longrightarrow>
          llms s = constructed_backends cfg env
          \<and> primary_llm s =
              (case map_of (constructed_backends cfg env) (default_model cfg) of
                 Some a \<Rightarrow> a
               | None \<Rightarrow> snd (hd (constructed_backends cfg env))))"
  by (cases "constructed_backends cfg env")
     (auto simp: AgentOrchestrator_init_def init_llms_constructed Let_def split: option.splits)

text \<open>
  C8 at work: all three keys are configured and the default is \<open>claude\<close>. When the
  Claude client cannot be constructed, the orchestrator starts with OpenAI and Gemini and
  OpenAI is primary; when no client can be constructed, it raises.
\<close>

theorem AgentOrchestrator_init_primary_witness:
  "constructed_backends full_settings claude_rejected_env =
     [(''openai'', OpenAIClient), (''gemini'', GeminiClient)]
   \<and> map_option primary_llm
        (case AgentOrchestrator_init full_settings claude_rejected_env of
           Inl e \<Rightarrow> None | Inr s \<Rightarrow> Some s) = Some OpenAIClient
   \<and> constructed_backends full_settings all_rejected_env = []
   \<and> (\<exists>e. AgentOrchestrator_init full_settings all_rejected_env = Inl e)"
proof -
  have c1: "constructed_backends full_settings claude_rejected_env =
     [(''openai'', OpenAIClient), (''gemini'', GeminiClient)]"
    by (simp add: constructed_backends_def str_given_def full_settings_def
          claude_rejected_env_def gemini_down_env_def example_env_def)
  have c2: "constructed_backends full_settings all_rejected_env = []"
    by (simp add: constructed_backends_def str_given_def full_settings_def
          all_rejected_env_def gemini_down_env_def example_env_def)
  have d: "default_model full_settings = ''claude''" by (simp add: full_settings_def)
  from AgentOrchestrator_init_primary[of full_settings all_rejected_env, THEN conjunct1] c2
  have r2: "\<exists>e. AgentOrchestrator_init full_settings all_rejected_env = Inl e" by simp
  from AgentOrchestrator_init_primary[of full_settings claude_rejected_env, THEN conjunct1] c1
  have "\<not> (\<exists>e. AgentOrchestrator_init full_settings claude_rejected_env = Inl e)" by simp
  then obtain s where i: "AgentOrchestrator_init full_settings claude_rejected_env = Inr s"
    by (cases "AgentOrchestrator_init full_settings claude_rejected_env") simp_all
  from AgentOrchestrator_init_primary[of full_settings claude_rejected_env,
         THEN conjunct2, THEN conjunct2, rule_format, OF i]
  have "primary_llm s = OpenAIClient" by (simp add: c1 d)
  with i c1 c2 r2 show ?thesis by simp
qed



text \<open>
  Claim C10 says that \<open>learn_from_feedback\<close> appends exactly one entry to the history
  when the adapter answers. \<open>SELF_EVOLVING_TEMPLATE\<close> has the placeholder \<open>context\<close>,
  which \<open>learn_from_feedback\<close> does not pass to \<open>format\<close>: the operation raises
  \<open>KeyError\<close> before its \<open>try\<close>. With an adapter that answers every request, the call
  and the route request for \<open>learn\<close> raise, the adapter is not called and the history
  stays empty.
\<close>

theorem learn_from_feedback_never_records:
  "llm_generate example_env ClaudeSonnetClient n q = Inr (example_response ClaudeSonnetClient)
   \<and> self_evolving_llm example_state = Some ClaudeSonnetClient
   \<and> learn_from_feedback prompt_templates example_env example_state
        (PDict [(''task_type'', PStr ''review'')]) (PStr ''too long'') (PStr ''failure'') (PDec 4 1)
       = (example_state, Inl (KeyError ''context''))
   \<and> route_request example_settings prompt_templates example_env example_state ''learn'' None
        [(''previous_interaction'', PDict [(''task_type'', PStr ''review'')]),
         (''feedback'', PStr ''too long''), (''outcome'', PStr ''failure'')]
       = (example_state
            \<lparr>events := [LogRouting ''learn'' None,
                        LogErrorRouting ''learn'' (KeyError ''context'')]\<rparr>,
          Inl (KeyError ''context''))"
  by (simp add: learn_from_feedback_def format_template_def prompt_templates_def
        route_request_unfold route_attempt_def dispatch_def call_learn_from_feedback_def
        bind_kwargs_def fallback_eligible_def emit_def get_llm_def Let_def
        example_state_def example_env_def example_settings_def)

end
